theory Spec2Isabelle
  imports Main "HOL-Library.Word" "HOL-Library.Signed_Division"
begin

section \<open>The MongoDB protocol module of packetbeat\<close>

text \<open>
  A shallow embedding of \<^verbatim>\<open>protos/mongodb/mongodb.go\<close> and of the structures file of the
  same package (message, stream, private data, transaction, constants, opcode table).
  Go structs are records, pointers that may be \<^verbatim>\<open>nil\<close> are options, Go maps are partial
  functions under an option (\<open>None\<close> is the \<^verbatim>\<open>nil\<close> map, which can be read and ranged
  over but not written), and every run-time panic the code can raise is a branch of the
  model.  Transactions are heap objects: the correlation table and the timer callbacks
  hold their addresses.
\<close>

subsection \<open>Time\<close>

text \<open>
  \<^verbatim>\<open>time.Time\<close> is an instant in nanoseconds; \<^verbatim>\<open>time.Duration\<close> is an \<^verbatim>\<open>int64\<close> count
  of nanoseconds.  \<^verbatim>\<open>Time.Sub\<close> saturates at the largest and smallest duration.
\<close>

type_synonym Time = int
type_synonym Duration = int

definition maxDuration :: Duration where
  "maxDuration = 2 ^ 63 - 1"

definition minDuration :: Duration where
  "minDuration = - (2 ^ 63)"

definition Sub :: "Time \<Rightarrow> Time \<Rightarrow> Duration" where
  "Sub t u =
     (let d = t - u
      in if maxDuration < d then maxDuration
         else if d < minDuration then minDuration
         else d)"

definition Second :: Duration where
  "Second = 1000000000"

text \<open>The zero \<^verbatim>\<open>time.Time\<close> (January 1 of year 1, UTC), counted from the Unix epoch.\<close>

definition zeroTime :: Time where
  "zeroTime = - 62135596800 * 1000000000"

text \<open>\<^verbatim>\<open>Time.UnixNano\<close>: the instant as an \<^verbatim>\<open>int64\<close>, wrapping outside its range.\<close>

definition UnixNano :: "Time \<Rightarrow> 64 word" where
  "UnixNano t = word_of_int t"

subsection \<open>Values and field maps\<close>

type_synonym byte = "8 word"

record Endpoint =
  Ip :: string
  Port :: "16 word"
  Proc :: string

text \<open>
  A value of type \<^verbatim>\<open>interface{}\<close>, as far as this module stores one in a
  \<^verbatim>\<open>common.MapStr\<close>: strings, the integer types it converts to, times, endpoints, nested
  field maps (possibly \<^verbatim>\<open>nil\<close>) and lists of values decoded from documents.
\<close>

datatype iface =
    IString string
  | IInt int
  | IInt32 "32 word"
  | IUint64 "64 word"
  | IBool bool
  | ITime Time
  | IEndpoint Endpoint
  | IMapStr "(string \<Rightarrow> iface option) option"
  | IList "iface list"

type_synonym MapStr = "(string \<rightharpoonup> iface) option"

subsection \<open>Connection identity\<close>

record TcpTuple =
  Src_ip :: string
  Dst_ip :: string
  Src_port :: "16 word"
  Dst_port :: "16 word"

type_synonym HashableTcpTuple = "string \<times> 16 word \<times> string \<times> 16 word"

text \<open>
  Modelled from the spec: \<^verbatim>\<open>common.TcpTuple.Hashable\<close> is declared in package
  \<^verbatim>\<open>common\<close>, outside the files at hand.  The connection identity is the 4-tuple
  (source IP, source port, destination IP, destination port); it does not hold the
  direction.  The IP addresses are kept in their textual form (\<^verbatim>\<open>net.IP.String\<close>).
\<close>

definition Hashable :: "TcpTuple \<Rightarrow> HashableTcpTuple" where
  "Hashable t = (Src_ip t, Src_port t, Dst_ip t, Dst_port t)"

record CmdlineTuple =
  Cmd_Src :: string
  Cmd_Dst :: string

subsection \<open>Messages and streams\<close>

record MongodbMessage =
  m_Ts :: Time
  m_TcpTuple :: TcpTuple
  m_CmdlineTuple :: "CmdlineTuple option"
  m_Direction :: "8 word"
  m_IsResponse :: bool
  m_ExpectsResponse :: bool
  m_messageLength :: int
  m_requestId :: int
  m_responseTo :: int
  m_opCode :: string
  m_method :: string
  m_error :: string
  m_event :: MapStr

definition zeroTcpTuple :: TcpTuple where
  "zeroTcpTuple = \<lparr>Src_ip = [], Dst_ip = [], Src_port = 0, Dst_port = 0\<rparr>"

text \<open>The composite literal \<^verbatim>\<open>&MongodbMessage{Ts: ts}\<close>: every other field is zero.\<close>

definition newMessage :: "Time \<Rightarrow> MongodbMessage" where
  "newMessage ts =
     \<lparr>m_Ts = ts, m_TcpTuple = zeroTcpTuple, m_CmdlineTuple = None, m_Direction = 0,
      m_IsResponse = False, m_ExpectsResponse = False, m_messageLength = 0,
      m_requestId = 0, m_responseTo = 0, m_opCode = [], m_method = [], m_error = [],
      m_event = None\<rparr>"

record MongodbStream =
  tcptuple :: TcpTuple
  data :: "byte list"
  parseOffset :: int
  bytesReceived :: int
  message :: "MongodbMessage option"

datatype panic = NilDereference | NilMapAssignment | SliceBounds | IndexOutOfRange

text \<open>
  \<^verbatim>\<open>PrepareForNewMessage\<close>: the slice expression \<^verbatim>\<open>data[messageLength:]\<close> panics when the
  length is negative or beyond the data; reading the length through a \<^verbatim>\<open>nil\<close> message
  panics too.
\<close>

definition PrepareForNewMessage :: "MongodbStream \<Rightarrow> panic + MongodbStream" where
  "PrepareForNewMessage stream =
     (case message stream of
        None \<Rightarrow> Inl NilDereference
      | Some m \<Rightarrow>
          if m_messageLength m < 0 \<or> int (length (data stream)) < m_messageLength m
          then Inl SliceBounds
          else Inr (stream\<lparr>data := drop (nat (m_messageLength m)) (data stream),
                           message := Some (newMessage (m_Ts m))\<rparr>))"

text \<open>The private data of a parser instance: an array of two stream pointers.\<close>

record mongodbPrivateData =
  Data :: "MongodbStream option \<times> MongodbStream option"

definition emptyPrivateData :: mongodbPrivateData where
  "emptyPrivateData = \<lparr>Data = (None, None)\<rparr>"

definition Data_at :: "mongodbPrivateData \<Rightarrow> 8 word \<Rightarrow> MongodbStream option" where
  "Data_at priv dir = (if dir = 0 then fst (Data priv) else snd (Data priv))"

definition Data_set ::
  "mongodbPrivateData \<Rightarrow> 8 word \<Rightarrow> MongodbStream option \<Rightarrow> mongodbPrivateData" where
  "Data_set priv dir v =
     (if dir = 0 then priv\<lparr>Data := (v, snd (Data priv))\<rparr>
      else priv\<lparr>Data := (fst (Data priv), v)\<rparr>)"

subsection \<open>Transactions, constants and the opcode table\<close>

text \<open>The field \<^verbatim>\<open>method\<close> of a transaction is written \<open>t_method\<close>.\<close>

record MongodbTransaction =
  Type :: string
  tuple :: TcpTuple
  cmdline :: "CmdlineTuple option"
  Src :: Endpoint
  Dst :: Endpoint
  ResponseTime :: "32 word"
  Ts :: "64 word"
  JsTs :: Time
  ts :: Time
  BytesOut :: int
  BytesIn :: int
  timer :: "nat option"
  Mongodb :: MapStr
  event :: MapStr
  t_method :: string
  error :: string

definition TransactionTimeout :: Duration where
  "TransactionTimeout = 10 * 1000000000"

definition OpCodes :: "int \<rightharpoonup> string" where
  "OpCodes = map_of
     [(1, ''OP_REPLY''),
      (1000, ''OP_MSG''),
      (2001, ''OP_UPDATE''),
      (2002, ''OP_INSERT''),
      (2003, ''RESERVED''),
      (2004, ''OP_QUERY''),
      (2005, ''OP_GET_MORE''),
      (2006, ''OP_DELETE''),
      (2007, ''OP_KILL_CURSORS'')]"

text \<open>The composite literal \<^verbatim>\<open>&MongodbTransaction{Type: "mongodb", tuple: tuple}\<close>.\<close>

definition zeroEndpoint :: Endpoint where
  "zeroEndpoint = \<lparr>Ip = [], Port = 0, Proc = []\<rparr>"

definition newTransaction :: "TcpTuple \<Rightarrow> MongodbTransaction" where
  "newTransaction tup =
     \<lparr>Type = ''mongodb'', tuple = tup, cmdline = None, Src = zeroEndpoint,
      Dst = zeroEndpoint, ResponseTime = 0, Ts = 0, JsTs = zeroTime, ts = zeroTime,
      BytesOut = 0, BytesIn = 0, timer = None, Mongodb = None, event = None,
      t_method = [], error = []\<rparr>"

subsection \<open>The plugin state and its run-time context\<close>

text \<open>
  A timer of package \<^verbatim>\<open>time\<close> created by \<^verbatim>\<open>time.AfterFunc\<close>.  Its callback here is
  always \<^verbatim>\<open>func() { mongodb.expireTransaction(trans) }\<close>, so the timer record holds
  the address of the captured transaction.  When the duration has elapsed the run-time
  starts the callback in a goroutine of its own (\<open>Fired\<close>); the body runs some time later
  (\<open>Finished\<close>).  \<^verbatim>\<open>Timer.Stop\<close> prevents the firing of a timer that is still armed and
  has no effect on one that has fired already.
\<close>

datatype timer_status = Armed | Stopped | Fired | Finished

record Timer =
  status :: timer_status
  duration :: Duration
  target :: nat

datatype log_entry = Debug string string | Warn string | Recovered string panic

text \<open>
  The struct \<^verbatim>\<open>Mongodb\<close> (configuration, correlation table, results channel) together
  with the context its methods act on: the heap of transaction objects (\<open>objects\<close>,
  allocated in order), the timers of the run-time, and the log of package \<^verbatim>\<open>logp\<close>.
  The channel is \<open>None\<close> when \<^verbatim>\<open>nil\<close>, and otherwise the events sent on it so far.
\<close>

record Mongodb_state =
  Send_request :: bool
  Send_response :: bool
  transactionsMap :: "HashableTcpTuple \<rightharpoonup> nat"
  results :: "(string \<rightharpoonup> iface) list option"
  objects :: "nat \<Rightarrow> MongodbTransaction"
  next_object :: nat
  timers :: "nat \<Rightarrow> Timer"
  next_timer :: nat
  log :: "log_entry list"

definition logDebug :: "string \<Rightarrow> string \<Rightarrow> Mongodb_state \<Rightarrow> Mongodb_state" where
  "logDebug selector text mongodb = mongodb\<lparr>log := log mongodb @ [Debug selector text]\<rparr>"

definition logWarn :: "string \<Rightarrow> Mongodb_state \<Rightarrow> Mongodb_state" where
  "logWarn text mongodb = mongodb\<lparr>log := log mongodb @ [Warn text]\<rparr>"

text \<open>\<^verbatim>\<open>logp.Recover\<close>, deferred by \<^verbatim>\<open>Parse\<close>: a panic is caught and logged.\<close>

definition Recover :: "string \<Rightarrow> panic \<Rightarrow> Mongodb_state \<Rightarrow> Mongodb_state" where
  "Recover text p mongodb = mongodb\<lparr>log := log mongodb @ [Recovered text p]\<rparr>"

definition AfterFunc :: "Duration \<Rightarrow> nat \<Rightarrow> Mongodb_state \<Rightarrow> nat \<times> Mongodb_state" where
  "AfterFunc d a mongodb =
     (next_timer mongodb,
      mongodb\<lparr>timers := (timers mongodb)
                 (next_timer mongodb := \<lparr>status = Armed, duration = d, target = a\<rparr>),
              next_timer := Suc (next_timer mongodb)\<rparr>)"

definition Stop :: "nat \<Rightarrow> Mongodb_state \<Rightarrow> Mongodb_state" where
  "Stop tid mongodb =
     (if status (timers mongodb tid) = Armed
      then mongodb\<lparr>timers := (timers mongodb)
                     (tid := (timers mongodb tid)\<lparr>status := Stopped\<rparr>)\<rparr>
      else mongodb)"

text \<open>
  What this module uses of the packages that are not at hand: the constants of
  \<^verbatim>\<open>tcp\<close> and \<^verbatim>\<open>common\<close>, the process watcher and the message parser
  \<^verbatim>\<open>mongodbMessageParser\<close>, which returns \<^verbatim>\<open>(ok, complete)\<close> and may update the stream
  it is given.  Modelled from the spec: \<^verbatim>\<open>FindProcessesTuple\<close> yields empty process
  names, and no failure, where the lookup finds nothing; so its result is never
  \<^verbatim>\<open>nil\<close>.
\<close>

record env =
  TcpDirectionReverse :: "8 word"
  TCP_MAX_DATA_IN_STREAM :: int
  OK_STATUS :: string
  ERROR_STATUS :: string
  FindProcessesTuple :: "TcpTuple \<Rightarrow> CmdlineTuple"
  mongodbMessageParser :: "MongodbStream \<Rightarrow> bool \<times> bool \<times> MongodbStream"

record config =
  cfg_send_request :: "bool option"
  cfg_send_response :: "bool option"

subsection \<open>Initialisation\<close>

definition InitDefaults :: "Mongodb_state \<Rightarrow> Mongodb_state" where
  "InitDefaults mongodb = mongodb\<lparr>Send_request := False, Send_response := False\<rparr>"

text \<open>A key of the configuration is \<open>None\<close> when it is not defined.\<close>

definition setFromConfig :: "config \<Rightarrow> Mongodb_state \<Rightarrow> Mongodb_state" where
  "setFromConfig cfg mongodb =
     (let m1 = (case cfg_send_request cfg of
                  Some b \<Rightarrow> mongodb\<lparr>Send_request := b\<rparr> | None \<Rightarrow> mongodb)
      in (case cfg_send_response cfg of
            Some b \<Rightarrow> m1\<lparr>Send_response := b\<rparr> | None \<Rightarrow> m1))"

definition defaultTimer :: Timer where
  "defaultTimer = \<lparr>status = Stopped, duration = 0, target = 0\<rparr>"

text \<open>The state before \<^verbatim>\<open>Init\<close>: no object allocated, no timer created, an empty log.\<close>

definition blank :: Mongodb_state where
  "blank =
     \<lparr>Send_request = False, Send_response = False, transactionsMap = Map.empty,
      results = None, objects = (\<lambda>_. newTransaction zeroTcpTuple), next_object = 0,
      timers = (\<lambda>_. defaultTimer), next_timer = 0, log = []\<rparr>"

definition Init ::
  "config \<Rightarrow> bool \<Rightarrow> (string \<rightharpoonup> iface) list option \<Rightarrow> Mongodb_state" where
  "Init cfg test_mode res =
     (let m0 = logDebug ''mongodb'' ''Init a MongoDB protocol parser'' blank;
          m1 = InitDefaults m0;
          m2 = (if \<not> test_mode then setFromConfig cfg m1 else m1)
      in m2\<lparr>transactionsMap := Map.empty, results := res\<rparr>)"

subsection \<open>The correlator\<close>

text \<open>The update in place of the transaction object at an address.\<close>

definition updateObject ::
  "nat \<Rightarrow> (MongodbTransaction \<Rightarrow> MongodbTransaction) \<Rightarrow> Mongodb_state \<Rightarrow> Mongodb_state" where
  "updateObject a f mongodb = mongodb\<lparr>objects := (objects mongodb)(a := f (objects mongodb a))\<rparr>"

text \<open>
  \<^verbatim>\<open>receivedMongodbRequest\<close>, in the order of its statements.  First the lookup: the
  transaction found in the table under the key of the message's tuple is kept (with a
  warning when it holds a request); otherwise a new object is allocated and stored.
\<close>

definition lookupOrCreate :: "Mongodb_state \<Rightarrow> TcpTuple \<Rightarrow> Mongodb_state \<times> nat" where
  "lookupOrCreate mongodb tup =
     (case transactionsMap mongodb (Hashable tup) of
        Some a \<Rightarrow>
          (if Mongodb (objects mongodb a) \<noteq> None
           then logWarn ''Two requests without a Response. Dropping old request'' mongodb
           else mongodb, a)
      | None \<Rightarrow>
          (let s0 = logDebug ''mongodb'' ''Initialize new transaction from request'' mongodb;
               a = next_object s0
           in (s0\<lparr>objects := (objects s0)(a := newTransaction tup),
                   next_object := Suc a,
                   transactionsMap := (transactionsMap s0)(Hashable tup \<mapsto> a)\<rparr>, a)))"

text \<open>The assignments from \<^verbatim>\<open>trans.Mongodb\<close> to \<^verbatim>\<open>trans.JsTs\<close>.\<close>

definition requestFields :: "MongodbMessage \<Rightarrow> MongodbTransaction \<Rightarrow> MongodbTransaction" where
  "requestFields msg tr =
     tr\<lparr>Mongodb := Some Map.empty,
           event := m_event msg,
           t_method := m_method msg,
           cmdline := m_CmdlineTuple msg,
           ts := m_Ts msg,
           Ts := word_of_int (sint (UnixNano (m_Ts msg)) sdiv 1000),
           JsTs := m_Ts msg\<rparr>"

text \<open>The endpoints, swapped for a message of the reverse direction.\<close>

definition requestEndpoints ::
  "env \<Rightarrow> MongodbMessage \<Rightarrow> CmdlineTuple \<Rightarrow> MongodbTransaction \<Rightarrow> MongodbTransaction" where
  "requestEndpoints e msg c tr =
     (let src = \<lparr>Ip = Src_ip (m_TcpTuple msg), Port = Src_port (m_TcpTuple msg),
                 Proc = Cmd_Src c\<rparr>;
          dst = \<lparr>Ip = Dst_ip (m_TcpTuple msg), Port = Dst_port (m_TcpTuple msg),
                 Proc = Cmd_Dst c\<rparr>
      in if m_Direction msg = TcpDirectionReverse e
         then tr\<lparr>Src := dst, Dst := src\<rparr>
         else tr\<lparr>Src := src, Dst := dst\<rparr>)"

text \<open>The timer: the one the transaction holds is stopped, then a new one is created.\<close>

definition rearmTimer :: "nat \<Rightarrow> Mongodb_state \<Rightarrow> Mongodb_state" where
  "rearmTimer a mongodb =
     (let s4 = (case timer (objects mongodb a) of
                  Some tid \<Rightarrow> Stop tid mongodb
                | None \<Rightarrow> mongodb);
          (tid', s5) = AfterFunc TransactionTimeout a s4
      in updateObject a (\<lambda>t. t\<lparr>timer := Some tid'\<rparr>) s5)"

text \<open>
  Reading the process names through a \<^verbatim>\<open>nil\<close> \<^verbatim>\<open>CmdlineTuple\<close> panics, after the first
  fields have been written.  A panic leaves the state as it is at that point (\<^verbatim>\<open>Parse\<close>
  recovers from it).
\<close>

definition receivedMongodbRequest ::
  "env \<Rightarrow> Mongodb_state \<Rightarrow> MongodbMessage \<Rightarrow> (panic \<times> Mongodb_state) + Mongodb_state" where
  "receivedMongodbRequest e mongodb msg =
     (case lookupOrCreate mongodb (m_TcpTuple msg) of
        (s1, a) \<Rightarrow>
          (let s2 = updateObject a (requestFields msg) s1
           in case m_CmdlineTuple msg of
                None \<Rightarrow> Inl (NilDereference, s2)
              | Some c \<Rightarrow>
                  Inr (rearmTimer a (updateObject a (requestEndpoints e msg c) s2))))"

text \<open>\<^verbatim>\<open>expireTransaction\<close>: deletes the table entry under the key of the transaction's tuple.\<close>

definition expireTransaction :: "Mongodb_state \<Rightarrow> nat \<Rightarrow> Mongodb_state" where
  "expireTransaction mongodb a =
     (let s = logDebug ''mongodb'' ''Expire transaction'' mongodb
      in s\<lparr>transactionsMap := (transactionsMap s)(Hashable (tuple (objects s a)) := None)\<rparr>)"

text \<open>\<^verbatim>\<open>t.event["fullCollectionName"].(string)\<close> with the result \<^verbatim>\<open>ok\<close> dropped.\<close>

definition fullCollectionName :: "MapStr \<Rightarrow> string" where
  "fullCollectionName ev =
     (case ev of
        None \<Rightarrow> []
      | Some em \<Rightarrow> (case em ''fullCollectionName'' of Some (IString s) \<Rightarrow> s | _ \<Rightarrow> []))"

text \<open>The event that \<^verbatim>\<open>publishTransaction\<close> builds from a transaction.\<close>

definition publishedEvent :: "env \<Rightarrow> MongodbTransaction \<Rightarrow> (string \<rightharpoonup> iface)" where
  "publishedEvent e t =
     [''type'' \<mapsto> IString ''mongodb'',
      ''status'' \<mapsto> IString (if error t = [] then OK_STATUS e else ERROR_STATUS e),
      ''mongodb'' \<mapsto> IMapStr (event t),
      ''method'' \<mapsto> IString (t_method t),
      ''query'' \<mapsto> IString (t_method t @ '' '' @ fullCollectionName (event t)),
      ''responsetime'' \<mapsto> IInt32 (ResponseTime t),
      ''bytes_in'' \<mapsto> IUint64 (word_of_int (BytesIn t)),
      ''bytes_out'' \<mapsto> IUint64 (word_of_int (BytesOut t)),
      ''@timestamp'' \<mapsto> ITime (ts t),
      ''src'' \<mapsto> IEndpoint (Src t),
      ''dst'' \<mapsto> IEndpoint (Dst t)]"

text \<open>
  \<^verbatim>\<open>publishTransaction\<close>.  Nothing is sent on a \<^verbatim>\<open>nil\<close> channel.  With an error text the
  key \<^verbatim>\<open>error\<close> is written into the transaction's field map first, which panics on a
  \<^verbatim>\<open>nil\<close> map.  The send on the channel appends the event to the events sent.
\<close>

definition publishTransaction ::
  "env \<Rightarrow> Mongodb_state \<Rightarrow> nat \<Rightarrow> (panic \<times> Mongodb_state) + Mongodb_state" where
  "publishTransaction e mongodb a =
     (case results mongodb of
        None \<Rightarrow>
          Inr (logDebug ''mongodb'' ''Try to publish transaction with null results'' mongodb)
      | Some sent \<Rightarrow>
          (let t = objects mongodb a
           in if error t = []
              then Inr (mongodb\<lparr>results := Some (sent @ [publishedEvent e t])\<rparr>)
              else
                (case event t of
                   None \<Rightarrow> Inl (NilMapAssignment, mongodb)
                 | Some em \<Rightarrow>
                     (let s1 = updateObject a
                                 (\<lambda>t. t\<lparr>event := Some (em(''error'' \<mapsto> IString (error t)))\<rparr>)
                                 mongodb
                      in Inr (s1\<lparr>results :=
                                   Some (sent @ [publishedEvent e (objects s1 a)])\<rparr>)))))"

text \<open>
  The loop \<^verbatim>\<open>for k, v := range msg.event { trans.event[k] = v }\<close>: no iteration over a
  \<^verbatim>\<open>nil\<close> or empty map, a panic at the first write into a \<^verbatim>\<open>nil\<close> map, and otherwise the
  stored map overridden by the message's map.
\<close>

definition mergeEvent :: "MapStr \<Rightarrow> MapStr \<Rightarrow> panic + MapStr" where
  "mergeEvent stored incoming =
     (case incoming of
        None \<Rightarrow> Inr stored
      | Some rm \<Rightarrow>
          if rm = Map.empty then Inr stored
          else (case stored of
                  None \<Rightarrow> Inl NilMapAssignment
                | Some em \<Rightarrow> Inr (Some (em ++ rm))))"

text \<open>The assignments of the response: merged fields, error text, response time.\<close>

definition responseFields ::
  "MongodbMessage \<Rightarrow> MapStr \<Rightarrow> MongodbTransaction \<Rightarrow> MongodbTransaction" where
  "responseFields msg merged tr =
     tr\<lparr>event := merged,
           error := m_error msg,
           ResponseTime := word_of_int (Sub (m_Ts msg) (ts tr) sdiv 1000000)\<rparr>"

text \<open>The end of \<^verbatim>\<open>receivedMongodbResponse\<close>: the entry is deleted, then the timer stopped.\<close>

definition removeTransaction :: "nat \<Rightarrow> Mongodb_state \<Rightarrow> Mongodb_state" where
  "removeTransaction a mongodb =
     (let s4 = mongodb\<lparr>transactionsMap :=
                 (transactionsMap mongodb)(Hashable (tuple (objects mongodb a)) := None)\<rparr>
      in case timer (objects mongodb a) of
           Some tid \<Rightarrow> Stop tid s4
         | None \<Rightarrow> s4)"

definition receivedMongodbResponse ::
  "env \<Rightarrow> Mongodb_state \<Rightarrow> MongodbMessage \<Rightarrow> (panic \<times> Mongodb_state) + Mongodb_state" where
  "receivedMongodbResponse e mongodb msg =
     (case transactionsMap mongodb (Hashable (m_TcpTuple msg)) of
        None \<Rightarrow> Inr (logWarn ''Response from unknown transaction. Ignoring.'' mongodb)
      | Some a \<Rightarrow>
          if Mongodb (objects mongodb a) = None
          then Inr (logWarn ''Response from unknown transaction. Ignoring.'' mongodb)
          else
            (case mergeEvent (event (objects mongodb a)) (m_event msg) of
               Inl p \<Rightarrow> Inl (p, mongodb)
             | Inr merged \<Rightarrow>
                 (case publishTransaction e
                         (updateObject a (responseFields msg merged) mongodb) a of
                    Inl p \<Rightarrow> Inl p
                  | Inr s2 \<Rightarrow>
                      Inr (removeTransaction a
                             (logDebug ''mongodb'' ''Mongodb transaction completed: %s'' s2)))))"

text \<open>
  \<^verbatim>\<open>handleMongodb\<close> writes the tuple, the direction and the process names into the
  message and dispatches on \<^verbatim>\<open>IsResponse\<close>.  The message is not read again after the
  call but for its length and timestamp, which are left as they were.
\<close>

definition handleMongodb ::
  "env \<Rightarrow> Mongodb_state \<Rightarrow> MongodbMessage \<Rightarrow> TcpTuple \<Rightarrow> 8 word
    \<Rightarrow> (panic \<times> Mongodb_state) + Mongodb_state" where
  "handleMongodb e mongodb m tcpt dir =
     (let m' = m\<lparr>m_TcpTuple := tcpt, m_Direction := dir,
                 m_CmdlineTuple := Some (FindProcessesTuple e tcpt)\<rparr>
      in if m_IsResponse m'
         then receivedMongodbResponse e
                (logDebug ''mongodb'' ''MongoDB response message'' mongodb) m'
         else receivedMongodbRequest e
                (logDebug ''mongodb'' ''MongoDB request message'' mongodb) m')"

subsection \<open>Timers at run time\<close>

text \<open>
  The two steps of the run-time for a timer: its duration elapses while it is armed, and
  the callback \<^verbatim>\<open>mongodb.expireTransaction(trans)\<close> of a fired timer runs.
\<close>

definition timerFires :: "Mongodb_state \<Rightarrow> nat \<Rightarrow> Mongodb_state" where
  "timerFires mongodb tid =
     (if tid < next_timer mongodb \<and> status (timers mongodb tid) = Armed
      then mongodb\<lparr>timers := (timers mongodb)(tid := (timers mongodb tid)\<lparr>status := Fired\<rparr>)\<rparr>
      else mongodb)"

definition runCallback :: "Mongodb_state \<Rightarrow> nat \<Rightarrow> Mongodb_state" where
  "runCallback mongodb tid =
     (if tid < next_timer mongodb \<and> status (timers mongodb tid) = Fired
      then (expireTransaction mongodb (target (timers mongodb tid)))
             \<lparr>timers := (timers mongodb)(tid := (timers mongodb tid)\<lparr>status := Finished\<rparr>)\<rparr>
      else mongodb)"

text \<open>The timeout as one event: the timer fires and its callback runs at once.\<close>

definition timeout :: "Mongodb_state \<Rightarrow> nat \<Rightarrow> Mongodb_state" where
  "timeout mongodb tid = runCallback (timerFires mongodb tid) tid"

subsection \<open>Parsing a packet\<close>

record Packet =
  pkt_Ts :: Time
  pkt_Payload :: "byte list"

text \<open>
  The loop of \<^verbatim>\<open>Parse\<close> over the stream of the packet's direction.  The result is the
  private data returned together with the state; the private data is \<open>None\<close> (\<^verbatim>\<open>nil\<close>)
  when a panic was recovered, since \<^verbatim>\<open>Parse\<close> then returns the zero value.  The loop
  need not end (a parser may complete messages of length zero for ever): a run that
  does not return is the value \<open>None\<close>.
\<close>

partial_function (option) parseLoop ::
  "env \<Rightarrow> Packet \<Rightarrow> TcpTuple \<Rightarrow> 8 word \<Rightarrow> mongodbPrivateData \<Rightarrow> MongodbStream
    \<Rightarrow> Mongodb_state \<Rightarrow> (mongodbPrivateData option \<times> Mongodb_state) option" where
  "parseLoop e pkt tcpt dir priv stream mongodb =
     (if 0 < length (data stream) then
        (let stream1 = (if message stream = None
                        then stream\<lparr>message := Some (newMessage (pkt_Ts pkt))\<rparr>
                        else stream)
         in case mongodbMessageParser e stream1 of
              (ok, complete, stream2) \<Rightarrow>
                if \<not> ok then
                  Some (Some (Data_set priv dir None),
                        logDebug ''mongodb''
                          ''Ignore Mongodb message. Drop tcp stream. Try parsing with the next segment''
                          mongodb)
                else if complete then
                  (case message stream2 of
                     None \<Rightarrow>
                       Some (None, Recover ''ParseMongodb exception'' NilDereference
                                     (logDebug ''mongodb'' ''MongoDB message complete'' mongodb))
                   | Some m \<Rightarrow>
                       (case handleMongodb e
                               (logDebug ''mongodb'' ''MongoDB message complete'' mongodb)
                               m tcpt dir of
                          Inl (p, mongodb') \<Rightarrow>
                            Some (None, Recover ''ParseMongodb exception'' p mongodb')
                        | Inr mongodb' \<Rightarrow>
                            (case PrepareForNewMessage stream2 of
                               Inl p \<Rightarrow>
                                 Some (None, Recover ''ParseMongodb exception'' p mongodb')
                             | Inr stream3 \<Rightarrow>
                                 parseLoop e pkt tcpt dir priv stream3 mongodb')))
                else
                  Some (Some (Data_set priv dir (Some stream2)),
                        logDebug ''mongodb''
                          ''MongoDB wait for more data before parsing message'' mongodb))
      else Some (Some (Data_set priv dir (Some stream)), mongodb))"

text \<open>
  \<^verbatim>\<open>Parse\<close>.  The private data handed in is \<open>None\<close> when it is \<^verbatim>\<open>nil\<close> or not of this
  module's type.  Indexing the array of two streams with a direction of 2 or more
  panics.
\<close>

definition Parse ::
  "env \<Rightarrow> Mongodb_state \<Rightarrow> Packet \<Rightarrow> TcpTuple \<Rightarrow> 8 word \<Rightarrow> mongodbPrivateData option
    \<Rightarrow> (mongodbPrivateData option \<times> Mongodb_state) option" where
  "Parse e mongodb pkt tcpt dir private =
     (let s0 = logDebug ''mongodb'' ''Parse method triggered'' mongodb;
          priv = (case private of None \<Rightarrow> emptyPrivateData | Some p \<Rightarrow> p)
      in if 2 \<le> unat dir
         then Some (None, Recover ''ParseMongodb exception'' IndexOutOfRange s0)
         else
           (case Data_at priv dir of
              None \<Rightarrow>
                parseLoop e pkt tcpt dir priv
                  \<lparr>tcptuple = tcpt, data = pkt_Payload pkt, parseOffset = 0,
                   bytesReceived = 0, message = Some (newMessage (pkt_Ts pkt))\<rparr> s0
            | Some st \<Rightarrow>
                (let st' = st\<lparr>data := data st @ pkt_Payload pkt\<rparr>
                 in if TCP_MAX_DATA_IN_STREAM e < int (length (data st'))
                    then Some (Some (Data_set priv dir None),
                               logDebug ''mongodb''
                                 ''Stream data too large, dropping TCP stream'' s0)
                    else parseLoop e pkt tcpt dir priv st' s0)))"

subsection \<open>Reachable states\<close>

text \<open>
  The states of the correlator: after \<^verbatim>\<open>Init\<close>, any sequence of messages handed to
  \<^verbatim>\<open>handleMongodb\<close> (a panic is recovered in \<^verbatim>\<open>Parse\<close> and leaves its state behind),
  of entries written to the log (as \<^verbatim>\<open>Parse\<close> does before it hands a message on, and
  \<^verbatim>\<open>logp.Recover\<close> after a panic), of timers that fire and of callbacks that run.
\<close>

inductive reachable :: "env \<Rightarrow> Mongodb_state \<Rightarrow> bool" for e :: env where
  r_init: "reachable e (Init cfg test_mode res)"
| r_handle: "reachable e s \<Longrightarrow> handleMongodb e s m tcpt dir = Inr s' \<Longrightarrow> reachable e s'"
| r_panic: "reachable e s \<Longrightarrow> handleMongodb e s m tcpt dir = Inl (p, s') \<Longrightarrow> reachable e s'"
| r_log: "reachable e s \<Longrightarrow> reachable e (s\<lparr>log := log s @ [entry]\<rparr>)"
| r_fires: "reachable e s \<Longrightarrow> reachable e (timerFires s tid)"
| r_callback: "reachable e s \<Longrightarrow> reachable e (runCallback s tid)"

text \<open>The same steps as events, and the run of a list of events from a state.\<close>

datatype event = Message MongodbMessage TcpTuple "8 word" | TimerFires nat | CallbackRuns nat

definition step :: "env \<Rightarrow> Mongodb_state \<Rightarrow> event \<Rightarrow> Mongodb_state" where
  "step e s ev =
     (case ev of
        Message m tcpt dir \<Rightarrow>
          (case handleMongodb e s m tcpt dir of Inr s' \<Rightarrow> s' | Inl (p, s') \<Rightarrow> s')
      | TimerFires tid \<Rightarrow> timerFires s tid
      | CallbackRuns tid \<Rightarrow> runCallback s tid)"

definition run :: "env \<Rightarrow> event list \<Rightarrow> Mongodb_state \<Rightarrow> Mongodb_state" where
  "run e evs s = foldl (step e) s evs"

subsection \<open>Notions used in the properties\<close>

text \<open>The address a request on a tuple works on: the one in the table, or the next free one.\<close>

definition request_addr :: "Mongodb_state \<Rightarrow> TcpTuple \<Rightarrow> nat" where
  "request_addr s tup =
     (case transactionsMap s (Hashable tup) of Some a \<Rightarrow> a | None \<Rightarrow> next_object s)"

text \<open>
  The table is consistent: every entry holds the address of an allocated object whose
  tuple has the entry's key and which holds a request; the timer of that object, if any,
  was created with this object as its target and with the transaction timeout.
\<close>

definition consistent :: "Mongodb_state \<Rightarrow> bool" where
  "consistent s \<longleftrightarrow>
     (\<forall>k a. transactionsMap s k = Some a \<longrightarrow>
        a < next_object s \<and> Hashable (tuple (objects s a)) = k \<and>
        Mongodb (objects s a) \<noteq> None \<and>
        (\<forall>tid. timer (objects s a) = Some tid \<longrightarrow>
           tid < next_timer s \<and> target (timers s tid) = a \<and>
           duration (timers s tid) = TransactionTimeout))"

text \<open>A connection has an open transaction: an entry under its key that holds a request.\<close>

definition openTransaction :: "Mongodb_state \<Rightarrow> HashableTcpTuple \<Rightarrow> bool" where
  "openTransaction s k =
     (case transactionsMap s k of None \<Rightarrow> False | Some a \<Rightarrow> Mongodb (objects s a) \<noteq> None)"

text \<open>The open transactions of a connection identity among the objects in the table.\<close>

definition openTransactions :: "Mongodb_state \<Rightarrow> HashableTcpTuple \<Rightarrow> nat set" where
  "openTransactions s k =
     {a. a \<in> ran (transactionsMap s) \<and> Mongodb (objects s a) \<noteq> None \<and>
         Hashable (tuple (objects s a)) = k}"

text \<open>The events sent on the channel, and what a published event holds.\<close>

definition published :: "Mongodb_state \<Rightarrow> (string \<rightharpoonup> iface) list" where
  "published s = (case results s of None \<Rightarrow> [] | Some sent \<Rightarrow> sent)"

definition fieldMap :: "(string \<rightharpoonup> iface) \<Rightarrow> (string \<rightharpoonup> iface)" where
  "fieldMap ev = (case ev ''mongodb'' of Some (IMapStr (Some fm)) \<Rightarrow> fm | _ \<Rightarrow> Map.empty)"


text \<open>The fields of a message as the merge loop reads them: none for a \<^verbatim>\<open>nil\<close> map.\<close>

definition fieldsOf :: "MapStr \<Rightarrow> (string \<rightharpoonup> iface)" where
  "fieldsOf ev = (case ev of None \<Rightarrow> Map.empty | Some m \<Rightarrow> m)"

text \<open>The stream that \<^verbatim>\<open>Parse\<close> creates from the first packet of a direction.\<close>

definition newStream :: "TcpTuple \<Rightarrow> Packet \<Rightarrow> MongodbStream" where
  "newStream tcpt pkt =
     \<lparr>tcptuple = tcpt, data = pkt_Payload pkt, parseOffset = 0, bytesReceived = 0,
      message = Some (newMessage (pkt_Ts pkt))\<rparr>"

text \<open>
  The stream that the loop of \<^verbatim>\<open>Parse\<close> starts on: a new one when the direction has
  none, and otherwise the stored one with the payload appended.
\<close>

definition pendingStream :: "TcpTuple \<Rightarrow> Packet \<Rightarrow> MongodbStream option \<Rightarrow> MongodbStream" where
  "pendingStream tcpt pkt slot =
     (case slot of
        None \<Rightarrow> newStream tcpt pkt
      | Some st \<Rightarrow> st\<lparr>data := data st @ pkt_Payload pkt\<rparr>)"

text \<open>
  The capture of a connection: each packet, with its direction, is given to \<^verbatim>\<open>Parse\<close>
  together with the private data that the call before returned, as the TCP layer does.
  A call that does not return delivers nothing.
\<close>

definition deliver ::
  "env \<Rightarrow> TcpTuple \<Rightarrow> mongodbPrivateData option \<times> Mongodb_state \<Rightarrow> Packet \<times> 8 word
    \<Rightarrow> mongodbPrivateData option \<times> Mongodb_state" where
  "deliver e tcpt ps pd =
     (case Parse e (snd ps) (fst pd) tcpt (snd pd) (fst ps) of
        Some r \<Rightarrow> r
      | None \<Rightarrow> ps)"

definition capture ::
  "env \<Rightarrow> TcpTuple \<Rightarrow> (Packet \<times> 8 word) list \<Rightarrow> Mongodb_state
    \<Rightarrow> mongodbPrivateData option \<times> Mongodb_state" where
  "capture e tcpt pkts s = foldl (deliver e tcpt) (None, s) pkts"

subsection \<open>The wire message decoder\<close>

text \<open>
  Modelled from the spec: the decoder \<^verbatim>\<open>mongodbMessageParser\<close> is not among the files
  at hand; only the opcode table it resolves the opcode with is (\<open>OpCodes\<close> above).  By
  the spec the decoder returns one of three outcomes.  The first 16 bytes are the
  header: message length, request id, response id and opcode, each a signed 32-bit
  little-endian integer.  Fewer bytes than the header or than the declared length:
  more data is needed.  A length below the header size, an opcode that the table does
  not resolve, and the reserved opcode: malformed.  Otherwise the body is decoded
  according to the opcode; the body decoders are a parameter.
\<close>

datatype decode_result = NeedMoreData | Malformed | Complete nat

definition readInt32 :: "byte list \<Rightarrow> nat \<Rightarrow> int" where
  "readInt32 buf off =
     sint (word_of_int
            (uint (buf ! off) + 256 * uint (buf ! (off + 1)) +
             65536 * uint (buf ! (off + 2)) + 16777216 * uint (buf ! (off + 3))) :: 32 word)"

definition supportedOpCode :: "int \<Rightarrow> bool" where
  "supportedOpCode c =
     (case OpCodes c of None \<Rightarrow> False | Some name \<Rightarrow> name \<noteq> ''RESERVED'')"

definition decodeMessage ::
  "(string \<Rightarrow> byte list \<Rightarrow> MongodbMessage \<Rightarrow> decode_result \<times> MongodbMessage)
    \<Rightarrow> byte list \<Rightarrow> MongodbMessage \<Rightarrow> decode_result \<times> MongodbMessage" where
  "decodeMessage body buf m =
     (if length buf < 16 then (NeedMoreData, m)
      else
        (let len = readInt32 buf 0;
             m1 = m\<lparr>m_messageLength := len, m_requestId := readInt32 buf 4,
                    m_responseTo := readInt32 buf 8\<rparr>
         in if len < 16 then (Malformed, m1)
            else if int (length buf) < len then (NeedMoreData, m1)
            else
              (case OpCodes (readInt32 buf 12) of
                 None \<Rightarrow> (Malformed, m1)
               | Some name \<Rightarrow>
                   if name = ''RESERVED'' then (Malformed, m1)
                   else body name (take (nat len) buf) (m1\<lparr>m_opCode := name\<rparr>))))"

subsection \<open>A concrete setting\<close>

text \<open>
  An environment, a connection and messages to run the definitions on: a parser that
  always waits for more data, a count query on \<^verbatim>\<open>db.users\<close> and replies to it (5 ms
  later; with an error text; \<open>2 ^ 31\<close> ms later).
\<close>

definition example_env :: env where
  "example_env =
     \<lparr>TcpDirectionReverse = 0, TCP_MAX_DATA_IN_STREAM = 4, OK_STATUS = ''OK'',
      ERROR_STATUS = ''Error'',
      FindProcessesTuple = (\<lambda>_. \<lparr>Cmd_Src = [], Cmd_Dst = []\<rparr>),
      mongodbMessageParser = (\<lambda>st. (True, False, st))\<rparr>"

definition example_config :: config where
  "example_config = \<lparr>cfg_send_request = None, cfg_send_response = None\<rparr>"

definition example_start :: Mongodb_state where
  "example_start = Init example_config True (Some [])"

definition example_tuple :: TcpTuple where
  "example_tuple =
     \<lparr>Src_ip = ''10.0.0.1'', Dst_ip = ''10.0.0.2'', Src_port = 40000, Dst_port = 27017\<rparr>"

definition example_request :: MongodbMessage where
  "example_request =
     (newMessage 1000000000)
       \<lparr>m_opCode := ''OP_QUERY'', m_method := ''count'',
        m_event := Some [''fullCollectionName'' \<mapsto> IString ''db.users'']\<rparr>"

definition example_response :: MongodbMessage where
  "example_response =
     (newMessage 1005000000)
       \<lparr>m_IsResponse := True, m_opCode := ''OP_REPLY'',
        m_event := Some [''numberReturned'' \<mapsto> IInt 1]\<rparr>"

definition example_error_response :: MongodbMessage where
  "example_error_response = example_response\<lparr>m_error := ''boom''\<rparr>"

definition example_late_response :: MongodbMessage where
  "example_late_response = example_response\<lparr>m_Ts := 1000000000 + 2147483648 * 1000000\<rparr>"

text \<open>
  A second environment, whose parser completes a message of four bytes at every call,
  and a packet of six bytes.
\<close>

definition example_complete_env :: env where
  "example_complete_env =
     example_env\<lparr>mongodbMessageParser :=
       (\<lambda>st. (True, True,
               st\<lparr>message := map_option (\<lambda>m. m\<lparr>m_messageLength := 4\<rparr>) (message st)\<rparr>))\<rparr>"

definition example_packet :: Packet where
  "example_packet = \<lparr>pkt_Ts = 1000000000, pkt_Payload = [1, 2, 3, 4, 5, 6]\<rparr>"

definition example_stream :: MongodbStream where
  "example_stream =
     \<lparr>tcptuple = example_tuple, data = [1, 2, 3, 4, 5, 6], parseOffset = 0,
      bytesReceived = 0, message = Some (newMessage 1000000000)\<rparr>"

text \<open>
  A third environment, whose parser completes at every call a message that takes all the
  pending bytes: a response when the first byte is 1, a request otherwise.  It leaves
  the timestamp of the message in progress as it is, having no packet to read one from.
  The packets of two exchanges on the example connection: a request at 1 s and its
  response 5 ms later, a second request at 2 s and its response 10 ms later; and a
  response \<open>2\<^sup>3\<^sup>1\<close> ms after the first request.
\<close>

definition example_wire_env :: env where
  "example_wire_env =
     example_env\<lparr>mongodbMessageParser :=
       (\<lambda>st. (True, True,
               st\<lparr>message :=
                    map_option
                      (\<lambda>m. m\<lparr>m_messageLength := int (length (data st)),
                              m_IsResponse := (hd (data st) = 1),
                              m_method := ''count'',
                              m_event := Some Map.empty\<rparr>)
                      (message st)\<rparr>))\<rparr>"

definition example_request_packet :: Packet where
  "example_request_packet = \<lparr>pkt_Ts = 1000000000, pkt_Payload = [0, 7]\<rparr>"

definition example_response_packet :: Packet where
  "example_response_packet = \<lparr>pkt_Ts = 1005000000, pkt_Payload = [1, 7]\<rparr>"

definition example_second_request_packet :: Packet where
  "example_second_request_packet = \<lparr>pkt_Ts = 2000000000, pkt_Payload = [0, 8]\<rparr>"

definition example_second_response_packet :: Packet where
  "example_second_response_packet = \<lparr>pkt_Ts = 2010000000, pkt_Payload = [1, 8]\<rparr>"

definition example_late_response_packet :: Packet where
  "example_late_response_packet =
     \<lparr>pkt_Ts = 1000000000 + 2147483648 * 1000000, pkt_Payload = [1, 7]\<rparr>"

section \<open>Properties\<close>

subsection \<open>Projections of the state after each operation\<close>

lemma logDebug_simps [simp]:
  "transactionsMap (logDebug a b s) = transactionsMap s"
  "results (logDebug a b s) = results s"
  "objects (logDebug a b s) = objects s"
  "next_object (logDebug a b s) = next_object s"
  "timers (logDebug a b s) = timers s"
  "next_timer (logDebug a b s) = next_timer s"
  "log (logDebug a b s) = log s @ [Debug a b]"
  by (simp_all add: logDebug_def)

lemma logWarn_simps [simp]:
  "transactionsMap (logWarn b s) = transactionsMap s"
  "results (logWarn b s) = results s"
  "objects (logWarn b s) = objects s"
  "next_object (logWarn b s) = next_object s"
  "timers (logWarn b s) = timers s"
  "next_timer (logWarn b s) = next_timer s"
  "log (logWarn b s) = log s @ [Warn b]"
  by (simp_all add: logWarn_def)

lemma Stop_simps [simp]:
  "transactionsMap (Stop tid s) = transactionsMap s"
  "results (Stop tid s) = results s"
  "objects (Stop tid s) = objects s"
  "next_object (Stop tid s) = next_object s"
  "next_timer (Stop tid s) = next_timer s"
  "log (Stop tid s) = log s"
  by (simp_all add: Stop_def)

lemma Stop_timer_fields [simp]:
  "target (timers (Stop tid s) x) = target (timers s x)"
  "duration (timers (Stop tid s) x) = duration (timers s x)"
  by (simp_all add: Stop_def)

lemma Stop_status:
  "status (timers (Stop tid s) x) =
     (if x = tid \<and> status (timers s tid) = Armed then Stopped else status (timers s x))"
  by (simp add: Stop_def)

lemma Stop_timers:
  "timers (Stop tid s) =
     (if status (timers s tid) = Armed
      then (timers s)(tid := (timers s tid)\<lparr>status := Stopped\<rparr>) else timers s)"
  by (simp add: Stop_def)

lemma updateObject_simps [simp]:
  "transactionsMap (updateObject a f s) = transactionsMap s"
  "results (updateObject a f s) = results s"
  "objects (updateObject a f s) = (objects s)(a := f (objects s a))"
  "next_object (updateObject a f s) = next_object s"
  "timers (updateObject a f s) = timers s"
  "next_timer (updateObject a f s) = next_timer s"
  "log (updateObject a f s) = log s"
  by (simp_all add: updateObject_def)

lemma lookupOrCreate_snd: "snd (lookupOrCreate s tup) = request_addr s tup"
  by (simp add: lookupOrCreate_def request_addr_def Let_def split: option.split)

lemma lookupOrCreate_simps:
  "transactionsMap (fst (lookupOrCreate s tup)) = (transactionsMap s)(Hashable tup \<mapsto> request_addr s tup)"
  "results (fst (lookupOrCreate s tup)) = results s"
  "next_object (fst (lookupOrCreate s tup)) =
     (if transactionsMap s (Hashable tup) = None then Suc (next_object s) else next_object s)"
  "timers (fst (lookupOrCreate s tup)) = timers s"
  "next_timer (fst (lookupOrCreate s tup)) = next_timer s"
  "objects (fst (lookupOrCreate s tup)) =
     (if transactionsMap s (Hashable tup) = None
      then (objects s)(next_object s := newTransaction tup) else objects s)"
  by (auto simp add: lookupOrCreate_def request_addr_def Let_def split: option.split)

lemma lookupOrCreate_frame [simp]:
  "results (fst (lookupOrCreate s tup)) = results s"
  "timers (fst (lookupOrCreate s tup)) = timers s"
  "next_timer (fst (lookupOrCreate s tup)) = next_timer s"
  by (simp_all add: lookupOrCreate_simps)

lemma rearmTimer_simps:
  "transactionsMap (rearmTimer a s) = transactionsMap s"
  "results (rearmTimer a s) = results s"
  "next_object (rearmTimer a s) = next_object s"
  "next_timer (rearmTimer a s) = Suc (next_timer s)"
  "log (rearmTimer a s) = log s"
  "objects (rearmTimer a s) = (objects s)(a := (objects s a)\<lparr>timer := Some (next_timer s)\<rparr>)"
  by (simp_all add: rearmTimer_def AfterFunc_def Let_def split: option.split)

lemma rearmTimer_timers:
  "timers (rearmTimer a s) =
    (timers (case timer (objects s a) of Some tid \<Rightarrow> Stop tid s | None \<Rightarrow> s))
      (next_timer s := \<lparr>status = Armed, duration = TransactionTimeout, target = a\<rparr>)"
  by (simp add: rearmTimer_def AfterFunc_def Let_def split: option.split)

lemma rearmTimer_new:
  "timers (rearmTimer a s) (next_timer s) =
     \<lparr>status = Armed, duration = TransactionTimeout, target = a\<rparr>"
  by (simp add: rearmTimer_timers)

lemma rearmTimer_old:
  assumes "x \<noteq> next_timer s"
  shows "target (timers (rearmTimer a s) x) = target (timers s x)"
    "duration (timers (rearmTimer a s) x) = duration (timers s x)"
    "status (timers (rearmTimer a s) x) =
       (if timer (objects s a) = Some x \<and> status (timers s x) = Armed then Stopped
        else status (timers s x))"
  using assms by (auto simp add: rearmTimer_timers Stop_status split: option.split)

lemma requestFields_simps [simp]:
  "tuple (requestFields msg t) = tuple t"
  "timer (requestFields msg t) = timer t"
  "Mongodb (requestFields msg t) = Some Map.empty"
  "event (requestFields msg t) = m_event msg"
  "t_method (requestFields msg t) = m_method msg"
  "ts (requestFields msg t) = m_Ts msg"
  "error (requestFields msg t) = error t"
  by (simp_all add: requestFields_def)

lemma requestEndpoints_simps [simp]:
  "tuple (requestEndpoints e msg c t) = tuple t"
  "timer (requestEndpoints e msg c t) = timer t"
  "Mongodb (requestEndpoints e msg c t) = Mongodb t"
  "event (requestEndpoints e msg c t) = event t"
  "t_method (requestEndpoints e msg c t) = t_method t"
  "ts (requestEndpoints e msg c t) = ts t"
  "error (requestEndpoints e msg c t) = error t"
  by (simp_all add: requestEndpoints_def Let_def)

lemma request_eq:
  assumes "m_CmdlineTuple msg = Some c"
  shows "receivedMongodbRequest e s msg =
     Inr (rearmTimer (request_addr s (m_TcpTuple msg))
           (updateObject (request_addr s (m_TcpTuple msg)) (requestEndpoints e msg c)
             (updateObject (request_addr s (m_TcpTuple msg)) (requestFields msg)
               (fst (lookupOrCreate s (m_TcpTuple msg))))))"
  using assms
  by (simp add: receivedMongodbRequest_def Let_def case_prod_beta lookupOrCreate_snd)

subsection \<open>The table invariant\<close>

lemma consistentI:
  assumes "\<And>k a. transactionsMap s k = Some a \<Longrightarrow> a < next_object s"
    and "\<And>k a. transactionsMap s k = Some a \<Longrightarrow> Hashable (tuple (objects s a)) = k"
    and "\<And>k a. transactionsMap s k = Some a \<Longrightarrow> Mongodb (objects s a) \<noteq> None"
    and "\<And>k a tid. transactionsMap s k = Some a \<Longrightarrow> timer (objects s a) = Some tid
           \<Longrightarrow> tid < next_timer s \<and> target (timers s tid) = a \<and>
               duration (timers s tid) = TransactionTimeout"
  shows "consistent s"
  using assms unfolding consistent_def by blast

lemma consistentD:
  assumes "consistent s" "transactionsMap s k = Some a"
  shows "a < next_object s" "Hashable (tuple (objects s a)) = k"
    "Mongodb (objects s a) \<noteq> None"
    "timer (objects s a) = Some tid \<Longrightarrow> tid < next_timer s"
    "timer (objects s a) = Some tid \<Longrightarrow> target (timers s tid) = a"
    "timer (objects s a) = Some tid \<Longrightarrow> duration (timers s tid) = TransactionTimeout"
  using assms unfolding consistent_def by blast+

lemma consistent_Init: "consistent (Init cfg tm res)"
  by (simp add: consistent_def Init_def Let_def)

lemma consistent_request_state:
  assumes "consistent s"
  shows "consistent (rearmTimer (request_addr s tup)
           (updateObject (request_addr s tup) (requestEndpoints e msg c)
             (updateObject (request_addr s tup) (requestFields msg)
               (fst (lookupOrCreate s tup)))))" (is "consistent ?s'")
proof -
  let ?a = "request_addr s tup"
  let ?k = "Hashable tup"
  have tab: "transactionsMap ?s' = (transactionsMap s)(?k \<mapsto> ?a)"
    by (simp add: rearmTimer_simps lookupOrCreate_simps)
  have nt: "next_timer ?s' = Suc (next_timer s)"
    by (simp add: rearmTimer_simps lookupOrCreate_simps)
  have no: "next_object s \<le> next_object ?s'"
    by (simp add: rearmTimer_simps lookupOrCreate_simps)
  have a_lt: "?a < next_object ?s'"
    using consistentD(1) [OF assms]
    by (auto simp add: rearmTimer_simps lookupOrCreate_simps request_addr_def split: option.split)
  have a_tuple: "Hashable (tuple (objects ?s' ?a)) = ?k"
    using consistentD(2) [OF assms]
    by (auto simp add: rearmTimer_simps lookupOrCreate_simps request_addr_def newTransaction_def
        split: option.split)
  have a_open: "Mongodb (objects ?s' ?a) \<noteq> None"
    by (simp add: rearmTimer_simps)
  have a_timer: "timer (objects ?s' ?a) = Some (next_timer s)"
    by (simp add: rearmTimer_simps lookupOrCreate_simps)
  have new_timer: "target (timers ?s' (next_timer s)) = ?a"
    "duration (timers ?s' (next_timer s)) = TransactionTimeout"
    using rearmTimer_new [of ?a "updateObject ?a (requestEndpoints e msg c)
             (updateObject ?a (requestFields msg) (fst (lookupOrCreate s tup)))"]
    by (simp_all add: lookupOrCreate_simps)
  have old_timer: "target (timers ?s' x) = target (timers s x)"
    "duration (timers ?s' x) = duration (timers s x)" if "x < next_timer s" for x
    using that rearmTimer_old(1,2) [of x "updateObject ?a (requestEndpoints e msg c)
             (updateObject ?a (requestFields msg) (fst (lookupOrCreate s tup)))" ?a]
    by (simp_all add: lookupOrCreate_simps)
  have other: "objects ?s' b = objects s b" if "transactionsMap s k = Some b" "k \<noteq> ?k" for b k
  proof -
    have "b \<noteq> ?a"
      using consistentD(1,2) [OF assms that(1)] consistentD(2) [OF assms, of ?k] that(2)
      by (auto simp add: request_addr_def split: option.splits)
    moreover have "b < next_object s" using consistentD(1) [OF assms that(1)] .
    ultimately show ?thesis
      by (simp add: rearmTimer_simps lookupOrCreate_simps)
  qed
  show ?thesis
  proof (rule consistentI)
    fix k a assume h: "transactionsMap ?s' k = Some a"
    show "a < next_object ?s'"
      using h a_lt no consistentD(1) [OF assms, of k a] unfolding tab by (cases "k = ?k") auto
    show "Hashable (tuple (objects ?s' a)) = k"
      using h a_tuple other [of k a] consistentD(2) [OF assms, of k a] unfolding tab
      by (cases "k = ?k") auto
    show "Mongodb (objects ?s' a) \<noteq> None"
      using h a_open other [of k a] consistentD(3) [OF assms, of k a] unfolding tab
      by (cases "k = ?k") auto
  next
    fix k a tid assume h: "transactionsMap ?s' k = Some a" "timer (objects ?s' a) = Some tid"
    show "tid < next_timer ?s' \<and> target (timers ?s' tid) = a \<and>
          duration (timers ?s' tid) = TransactionTimeout"
    proof (cases "k = ?k")
      case True
      with h a_timer new_timer show ?thesis unfolding tab nt by auto
    next
      case False
      with h have in_s: "transactionsMap s k = Some a" unfolding tab by simp
      with h(2) other [OF in_s False] have "timer (objects s a) = Some tid" by simp
      from consistentD(4-6) [OF assms in_s this] old_timer [of tid]
      show ?thesis unfolding nt by simp
    qed
  qed
qed

lemma consistent_request:
  assumes "consistent s" "receivedMongodbRequest e s msg = Inr s'" 
  shows "consistent s'"
proof (cases "m_CmdlineTuple msg")
  case None
  with assms(2) show ?thesis
    by (simp add: receivedMongodbRequest_def Let_def case_prod_beta)
next
  case (Some c)
  from assms(2) have "s' = rearmTimer (request_addr s (m_TcpTuple msg))
           (updateObject (request_addr s (m_TcpTuple msg)) (requestEndpoints e msg c)
             (updateObject (request_addr s (m_TcpTuple msg)) (requestFields msg)
               (fst (lookupOrCreate s (m_TcpTuple msg)))))"
    unfolding request_eq [OF Some] by simp
  then show ?thesis using consistent_request_state [OF assms(1)] by simp
qed

lemma consistent_update:
  assumes "consistent s" "\<And>t. tuple (f t) = tuple t" "\<And>t. timer (f t) = timer t"
    "\<And>t. Mongodb (f t) = Mongodb t"
  shows "consistent (updateObject a f s)"
  using assms unfolding consistent_def by simp

lemma consistent_results [simp]: "consistent (s\<lparr>results := r\<rparr>) = consistent s"
  by (simp add: consistent_def)

lemma consistent_logDebug [simp]: "consistent (logDebug a b s) = consistent s"
  by (simp add: consistent_def)

lemma consistent_logWarn [simp]: "consistent (logWarn b s) = consistent s"
  by (simp add: consistent_def)

lemma consistent_Stop [simp]: "consistent (Stop tid s) = consistent s"
  by (simp add: consistent_def)

lemma timerFires_simps [simp]:
  "transactionsMap (timerFires s tid) = transactionsMap s"
  "results (timerFires s tid) = results s"
  "objects (timerFires s tid) = objects s"
  "next_object (timerFires s tid) = next_object s"
  "next_timer (timerFires s tid) = next_timer s"
  "log (timerFires s tid) = log s"
  "target (timers (timerFires s tid) x) = target (timers s x)"
  "duration (timers (timerFires s tid) x) = duration (timers s x)"
  by (simp_all add: timerFires_def)

lemma expireTransaction_simps [simp]:
  "transactionsMap (expireTransaction s a) =
     (transactionsMap s)(Hashable (tuple (objects s a)) := None)"
  "results (expireTransaction s a) = results s"
  "objects (expireTransaction s a) = objects s"
  "next_object (expireTransaction s a) = next_object s"
  "next_timer (expireTransaction s a) = next_timer s"
  "timers (expireTransaction s a) = timers s"
  "log (expireTransaction s a) = log s @ [Debug ''mongodb'' ''Expire transaction'']"
  by (simp_all add: expireTransaction_def Let_def)

lemma runCallback_simps [simp]:
  "results (runCallback s tid) = results s"
  "objects (runCallback s tid) = objects s"
  "next_object (runCallback s tid) = next_object s"
  "next_timer (runCallback s tid) = next_timer s"
  "target (timers (runCallback s tid) x) = target (timers s x)"
  "duration (timers (runCallback s tid) x) = duration (timers s x)"
  by (simp_all add: runCallback_def)

lemma runCallback_table:
  "transactionsMap (runCallback s tid) =
     (if tid < next_timer s \<and> status (timers s tid) = Fired
      then (transactionsMap s)(Hashable (tuple (objects s (target (timers s tid)))) := None)
      else transactionsMap s)"
  by (simp add: runCallback_def)

lemma consistent_delete:
  assumes "consistent s"
  shows "consistent (s\<lparr>transactionsMap := (transactionsMap s)(k := None)\<rparr>)"
  using assms unfolding consistent_def by simp

lemma consistent_publish:
  assumes "consistent s" "publishTransaction e s a = r" "r = Inr s' \<or> r = Inl (p, s')"
  shows "consistent s'"
proof (cases "results s")
  case None
  with assms show ?thesis by (auto simp add: publishTransaction_def)
next
  case (Some sent)
  show ?thesis
  proof (cases "error (objects s a) = []")
    case True
    with assms Some show ?thesis by (auto simp add: publishTransaction_def Let_def)
  next
    case False
    show ?thesis
    proof (cases "event (objects s a)")
      case None
      with assms Some False show ?thesis by (auto simp add: publishTransaction_def Let_def)
    next
      case (Some em)
      have "consistent (updateObject a
              (\<lambda>t. t\<lparr>event := Some (em(''error'' \<mapsto> IString (error t)))\<rparr>) s)"
        by (rule consistent_update [OF assms(1)]) simp_all
      with assms \<open>results s = Some sent\<close> False Some show ?thesis
        by (auto simp add: publishTransaction_def Let_def)
    qed
  qed
qed

lemma responseFields_simps [simp]:
  "tuple (responseFields msg merged t) = tuple t"
  "timer (responseFields msg merged t) = timer t"
  "Mongodb (responseFields msg merged t) = Mongodb t"
  "event (responseFields msg merged t) = merged"
  "t_method (responseFields msg merged t) = t_method t"
  "ts (responseFields msg merged t) = ts t"
  "error (responseFields msg merged t) = m_error msg"
  "ResponseTime (responseFields msg merged t) = word_of_int (Sub (m_Ts msg) (ts t) sdiv 1000000)"
  "Src (responseFields msg merged t) = Src t"
  "Dst (responseFields msg merged t) = Dst t"
  "BytesIn (responseFields msg merged t) = BytesIn t"
  "BytesOut (responseFields msg merged t) = BytesOut t"
  by (simp_all add: responseFields_def)

lemma consistent_remove:
  assumes "consistent s"
  shows "consistent (removeTransaction a s)"
  using consistent_delete [OF assms]
  by (simp add: removeTransaction_def Let_def split: option.split)

lemma consistent_response:
  assumes "consistent s" "receivedMongodbResponse e s msg = r" "r = Inr s' \<or> r = Inl (p, s')"
  shows "consistent s'"
proof (cases "transactionsMap s (Hashable (m_TcpTuple msg))")
  case None
  with assms show ?thesis by (auto simp add: receivedMongodbResponse_def)
next
  case (Some a)
  show ?thesis
  proof (cases "Mongodb (objects s a) = None")
    case True
    with assms Some show ?thesis by (auto simp add: receivedMongodbResponse_def)
  next
    case False
    show ?thesis
    proof (cases "mergeEvent (event (objects s a)) (m_event msg)")
      case (Inl q)
      with assms Some False show ?thesis by (auto simp add: receivedMongodbResponse_def)
    next
      case (Inr merged)
      let ?s1 = "updateObject a (responseFields msg merged) s"
      have c1: "consistent ?s1" by (rule consistent_update [OF assms(1)]) simp_all
      show ?thesis
      proof (cases "publishTransaction e ?s1 a")
        case (Inl q)
        then have "r = Inl q" using assms(2) Some False Inr
          by (simp add: receivedMongodbResponse_def)
        with assms(3) have "q = (p, s')" by auto
        with consistent_publish [OF c1 Inl] show ?thesis by simp
      next
        case (Inr s2)
        have c2: "consistent s2" using consistent_publish [OF c1 Inr] by simp
        have "r = Inr (removeTransaction a
                (logDebug ''mongodb'' ''Mongodb transaction completed: %s'' s2))"
          using assms(2) Some False \<open>mergeEvent (event (objects s a)) (m_event msg) = Inr merged\<close> Inr
          by (simp add: receivedMongodbResponse_def)
        with assms(3) consistent_remove [of "logDebug ''mongodb'' ''Mongodb transaction completed: %s'' s2" a] c2
        show ?thesis by auto
      qed
    qed
  qed
qed

lemma handle_not_request_panic:
  "\<not> m_IsResponse m \<Longrightarrow> handleMongodb e s m tcpt dir \<noteq> Inl x"
  by (simp add: handleMongodb_def Let_def request_eq)

lemma consistent_handle:
  assumes "consistent s" "handleMongodb e s m tcpt dir = r" "r = Inr s' \<or> r = Inl (p, s')"
  shows "consistent s'"
proof (cases "m_IsResponse m")
  case True
  then have "receivedMongodbResponse e (logDebug ''mongodb'' ''MongoDB response message'' s)
     (m\<lparr>m_TcpTuple := tcpt, m_Direction := dir,
        m_CmdlineTuple := Some (FindProcessesTuple e tcpt)\<rparr>) = r"
    using assms(2) by (simp add: handleMongodb_def Let_def)
  from consistent_response [OF _ this assms(3)] assms(1) show ?thesis by simp
next
  case False
  then have eq: "receivedMongodbRequest e (logDebug ''mongodb'' ''MongoDB request message'' s)
     (m\<lparr>m_TcpTuple := tcpt, m_Direction := dir,
        m_CmdlineTuple := Some (FindProcessesTuple e tcpt)\<rparr>) = r"
    using assms(2) by (simp add: handleMongodb_def Let_def)
  from handle_not_request_panic [OF False] assms(2,3) have "r = Inr s'" by auto
  with eq consistent_request [of "logDebug ''mongodb'' ''MongoDB request message'' s"] assms(1)
  show ?thesis by simp
qed

lemma consistent_timerFires: "consistent s \<Longrightarrow> consistent (timerFires s tid)"
  by (simp add: consistent_def)

lemma consistent_expire: "consistent s \<Longrightarrow> consistent (expireTransaction s a)"
  using consistent_delete [of "logDebug ''mongodb'' ''Expire transaction'' s"]
  by (simp add: expireTransaction_def Let_def)

lemma consistent_runCallback: "consistent s \<Longrightarrow> consistent (runCallback s tid)"
  by (simp add: consistent_def runCallback_table)

lemma reachable_consistent: "reachable e s \<Longrightarrow> consistent s"
proof (induction rule: reachable.induct)
  case (r_init cfg test_mode res)
  show ?case by (rule consistent_Init)
next
  case (r_handle s m tcpt dir s')
  from consistent_handle [OF r_handle.IH r_handle.hyps(2)] show ?case by simp
next
  case (r_panic s m tcpt dir p s')
  from consistent_handle [OF r_panic.IH r_panic.hyps(2)] show ?case by simp
next
  case (r_log s entry)
  then show ?case by (simp add: consistent_def)
next
  case (r_fires s tid)
  then show ?case by (simp add: consistent_timerFires)
next
  case (r_callback s tid)
  then show ?case by (simp add: consistent_runCallback)
qed

subsection \<open>The state after a request and after a response\<close>

lemma request_addr_logDebug [simp]: "request_addr (logDebug a b s) tup = request_addr s tup"
  by (simp add: request_addr_def split: option.split)

lemma requestEndpoints_Src_Dst:
  "Src (requestEndpoints e msg c t) =
     (if m_Direction msg = TcpDirectionReverse e
      then \<lparr>Ip = Dst_ip (m_TcpTuple msg), Port = Dst_port (m_TcpTuple msg), Proc = Cmd_Dst c\<rparr>
      else \<lparr>Ip = Src_ip (m_TcpTuple msg), Port = Src_port (m_TcpTuple msg), Proc = Cmd_Src c\<rparr>)"
  "Dst (requestEndpoints e msg c t) =
     (if m_Direction msg = TcpDirectionReverse e
      then \<lparr>Ip = Src_ip (m_TcpTuple msg), Port = Src_port (m_TcpTuple msg), Proc = Cmd_Src c\<rparr>
      else \<lparr>Ip = Dst_ip (m_TcpTuple msg), Port = Dst_port (m_TcpTuple msg), Proc = Cmd_Dst c\<rparr>)"
  by (simp_all add: requestEndpoints_def Let_def)

lemma lookupOrCreate_log:
  "log (fst (lookupOrCreate s tup)) =
     log s @
     (case transactionsMap s (Hashable tup) of
        None \<Rightarrow> [Debug ''mongodb'' ''Initialize new transaction from request'']
      | Some a \<Rightarrow>
          if Mongodb (objects s a) \<noteq> None
          then [Warn ''Two requests without a Response. Dropping old request''] else [])"
  by (simp add: lookupOrCreate_def Let_def split: option.splits)

text \<open>The state after a request handed to handleMongodb.\<close>

lemma handle_request_eq:
  assumes "\<not> m_IsResponse m"
  shows "handleMongodb e s m tcpt dir =
    Inr (rearmTimer (request_addr s tcpt)
          (updateObject (request_addr s tcpt)
             (requestEndpoints e
                (m\<lparr>m_TcpTuple := tcpt, m_Direction := dir,
                   m_CmdlineTuple := Some (FindProcessesTuple e tcpt)\<rparr>)
                (FindProcessesTuple e tcpt))
             (updateObject (request_addr s tcpt)
                (requestFields
                   (m\<lparr>m_TcpTuple := tcpt, m_Direction := dir,
                      m_CmdlineTuple := Some (FindProcessesTuple e tcpt)\<rparr>))
                (fst (lookupOrCreate (logDebug ''mongodb'' ''MongoDB request message'' s)
                       tcpt)))))"
  using assms
    request_eq [of "m\<lparr>m_TcpTuple := tcpt, m_Direction := dir,
                     m_CmdlineTuple := Some (FindProcessesTuple e tcpt)\<rparr>"
                "FindProcessesTuple e tcpt" e
                "logDebug ''mongodb'' ''MongoDB request message'' s"]
  by (simp add: handleMongodb_def Let_def)

lemma mergeEvent_Some: "mergeEvent (Some em) inc = Inr (Some (em ++ fieldsOf inc))"
  by (simp add: mergeEvent_def fieldsOf_def split: option.split)

lemma publishedEvent_lookup:
  "publishedEvent e t ''mongodb'' = Some (IMapStr (event t))"
  "publishedEvent e t ''responsetime'' = Some (IInt32 (ResponseTime t))"
  by (simp_all add: publishedEvent_def)

lemma removeTransaction_simps [simp]:
  "transactionsMap (removeTransaction a s) =
     (transactionsMap s)(Hashable (tuple (objects s a)) := None)"
  "results (removeTransaction a s) = results s"
  "objects (removeTransaction a s) = objects s"
  "next_object (removeTransaction a s) = next_object s"
  "next_timer (removeTransaction a s) = next_timer s"
  "log (removeTransaction a s) = log s"
  "target (timers (removeTransaction a s) x) = target (timers s x)"
  "duration (timers (removeTransaction a s) x) = duration (timers s x)"
  by (simp_all add: removeTransaction_def Let_def split: option.split)

lemma removeTransaction_status:
  "status (timers (removeTransaction a s) x) =
     (if timer (objects s a) = Some x \<and> status (timers s x) = Armed then Stopped
      else status (timers s x))"
  by (simp add: removeTransaction_def Let_def Stop_status split: option.split)

lemma publish_eq:
  assumes "results s = Some sent" "event (objects s a) = Some em"
  shows "publishTransaction e s a =
    Inr ((updateObject a
           (\<lambda>t. if error t = [] then t
                else t\<lparr>event := Some (em(''error'' \<mapsto> IString (error t)))\<rparr>) s)
         \<lparr>results := Some (sent @
            [publishedEvent e
              (if error (objects s a) = [] then objects s a
               else (objects s a)
                      \<lparr>event := Some (em(''error'' \<mapsto> IString (error (objects s a))))\<rparr>)])\<rparr>)"
  using assms by (simp add: publishTransaction_def Let_def updateObject_def)

text \<open>The state after a response to an open transaction, with a sink attached.\<close>

lemma handle_response_eq:
  assumes "m_IsResponse m" "transactionsMap s (Hashable tcpt) = Some a"
    "Mongodb (objects s a) \<noteq> None" "event (objects s a) = Some em" "results s = Some sent"
  shows "handleMongodb e s m tcpt dir =
    (case publishTransaction e
       (updateObject a
          (responseFields
             (m\<lparr>m_TcpTuple := tcpt, m_Direction := dir,
                m_CmdlineTuple := Some (FindProcessesTuple e tcpt)\<rparr>)
             (Some (em ++ fieldsOf (m_event m))))
          (logDebug ''mongodb'' ''MongoDB response message'' s)) a of
       Inl p \<Rightarrow> Inl p
     | Inr s2 \<Rightarrow>
         Inr (removeTransaction a
               (logDebug ''mongodb'' ''Mongodb transaction completed: %s'' s2)))"
  using assms(1,2,4)
  by (simp add: handleMongodb_def Let_def receivedMongodbResponse_def mergeEvent_Some assms(3))

lemma reachable_run: "reachable e s \<Longrightarrow> reachable e (run e evs s)"
proof (induction evs arbitrary: s)
  case Nil
  then show ?case by (simp add: run_def)
next
  case (Cons ev evs)
  have "reachable e (step e s ev)"
  proof (cases ev)
    case (Message m tcpt dir)
    show ?thesis
    proof (cases "handleMongodb e s m tcpt dir")
      case (Inl x)
      obtain p s' where "x = (p, s')" by (cases x)
      with Inl Message r_panic [OF Cons.prems, of m tcpt dir p s'] show ?thesis
        by (simp add: step_def)
    next
      case (Inr s')
      with Message r_handle [OF Cons.prems, of m tcpt dir s'] show ?thesis
        by (simp add: step_def)
    qed
  next
    case (TimerFires tid)
    with r_fires [OF Cons.prems, of tid] show ?thesis by (simp add: step_def)
  next
    case (CallbackRuns tid)
    with r_callback [OF Cons.prems, of tid] show ?thesis by (simp add: step_def)
  qed
  from Cons.IH [OF this] show ?case by (simp add: run_def)
qed

lemma reachable_logs:
  assumes "reachable e s"
  shows "reachable e (logDebug a b s)" "reachable e (logWarn b s)"
    "reachable e (Recover b p s)"
  using r_log [OF assms] by (simp_all add: logDebug_def logWarn_def Recover_def)

text \<open>
  A request and then a response on the same connection, with any writes to the log in
  between.
\<close>

lemma pairing:
  assumes "reachable e s" "results s = Some sent" "\<not> m_IsResponse req"
    "m_event req = Some em" "m_IsResponse resp"
  shows "\<exists>s1 s2 t. handleMongodb e s req tcpt dir1 = Inr s1 \<and> results s1 = Some sent \<and>
    handleMongodb e (s1\<lparr>log := l\<rparr>) resp tcpt dir2 = Inr s2 \<and>
    results s2 = Some (sent @ [publishedEvent e t]) \<and>
    event t = Some (if m_error resp = [] then em ++ fieldsOf (m_event resp)
                    else (em ++ fieldsOf (m_event resp))(''error'' \<mapsto> IString (m_error resp))) \<and>
    ResponseTime t = word_of_int (Sub (m_Ts resp) (m_Ts req) sdiv 1000000) \<and>
    transactionsMap s2 (Hashable tcpt) = None"
proof -
  let ?a = "request_addr s tcpt"
  obtain s1 where s1: "handleMongodb e s req tcpt dir1 = Inr s1"
    and s1_def: "s1 = rearmTimer ?a
          (updateObject ?a
             (requestEndpoints e
                (req\<lparr>m_TcpTuple := tcpt, m_Direction := dir1,
                   m_CmdlineTuple := Some (FindProcessesTuple e tcpt)\<rparr>)
                (FindProcessesTuple e tcpt))
             (updateObject ?a
                (requestFields
                   (req\<lparr>m_TcpTuple := tcpt, m_Direction := dir1,
                      m_CmdlineTuple := Some (FindProcessesTuple e tcpt)\<rparr>))
                (fst (lookupOrCreate (logDebug ''mongodb'' ''MongoDB request message'' s)
                       tcpt))))"
    using handle_request_eq [OF assms(3)] by simp
  let ?s1 = "s1\<lparr>log := l\<rparr>"
  have tab1: "transactionsMap s1 (Hashable tcpt) = Some ?a"
    unfolding s1_def by (simp add: rearmTimer_simps lookupOrCreate_simps)
  have res1: "results s1 = Some sent"
    unfolding s1_def using assms(2) by (simp add: rearmTimer_simps lookupOrCreate_simps)
  have ev1: "event (objects s1 ?a) = Some em"
    unfolding s1_def using assms(4) by (simp add: rearmTimer_simps lookupOrCreate_simps)
  have ts1: "ts (objects s1 ?a) = m_Ts req"
    unfolding s1_def by (simp add: rearmTimer_simps lookupOrCreate_simps)
  have "reachable e s1" using r_handle [OF assms(1) s1] .
  then have c1: "consistent s1" by (rule reachable_consistent)
  note k1 = consistentD(2,3) [OF c1 tab1]
  have tab1': "transactionsMap ?s1 (Hashable tcpt) = Some ?a" using tab1 by simp
  have open1': "Mongodb (objects ?s1 ?a) \<noteq> None" using k1(2) by simp
  have ev1': "event (objects ?s1 ?a) = Some em" using ev1 by simp
  have res1': "results ?s1 = Some sent" using res1 by simp
  let ?m = "resp\<lparr>m_TcpTuple := tcpt, m_Direction := dir2,
                 m_CmdlineTuple := Some (FindProcessesTuple e tcpt)\<rparr>"
  let ?u = "updateObject ?a (responseFields ?m (Some (em ++ fieldsOf (m_event resp))))
              (logDebug ''mongodb'' ''MongoDB response message'' ?s1)"
  let ?t = "if m_error resp = [] then objects ?u ?a
            else (objects ?u ?a)\<lparr>event := Some ((em ++ fieldsOf (m_event resp))
                      (''error'' \<mapsto> IString (m_error resp)))\<rparr>"
  have resu: "results ?u = Some sent" using res1 by simp
  have pub: "publishTransaction e ?u ?a =
      Inr ((updateObject ?a
             (\<lambda>t. if error t = [] then t
                  else t\<lparr>event := Some ((em ++ fieldsOf (m_event resp))
                            (''error'' \<mapsto> IString (error t)))\<rparr>) ?u)
           \<lparr>results := Some (sent @ [publishedEvent e ?t])\<rparr>)"
    using publish_eq [of ?u sent ?a "em ++ fieldsOf (m_event resp)" e] resu by simp
  let ?s2 = "removeTransaction ?a
            (logDebug ''mongodb'' ''Mongodb transaction completed: %s''
              ((updateObject ?a
                 (\<lambda>t. if error t = [] then t
                      else t\<lparr>event := Some ((em ++ fieldsOf (m_event resp))
                                (''error'' \<mapsto> IString (error t)))\<rparr>) ?u)
               \<lparr>results := Some (sent @ [publishedEvent e ?t])\<rparr>))"
  have s2: "handleMongodb e ?s1 resp tcpt dir2 = Inr ?s2"
    unfolding handle_response_eq [OF assms(5) tab1' open1' ev1' res1'] pub by simp
  have "handleMongodb e s req tcpt dir1 = Inr s1 \<and> results s1 = Some sent \<and>
    handleMongodb e ?s1 resp tcpt dir2 = Inr ?s2 \<and>
    results ?s2 = Some (sent @ [publishedEvent e ?t]) \<and>
    event ?t = Some (if m_error resp = [] then em ++ fieldsOf (m_event resp)
                    else (em ++ fieldsOf (m_event resp))(''error'' \<mapsto> IString (m_error resp))) \<and>
    ResponseTime ?t = word_of_int (Sub (m_Ts resp) (m_Ts req) sdiv 1000000) \<and>
    transactionsMap ?s2 (Hashable tcpt) = None"
    unfolding s2 using s1 res1 k1(1) ts1 by simp
  then show ?thesis by blast
qed

subsection \<open>Pairing and orphan responses\<close>

lemma example_start_simps:
  "results example_start = Some []" "transactionsMap example_start = Map.empty"
  "next_object example_start = 0" "next_timer example_start = 0"
  by (simp_all add: example_start_def Init_def Let_def InitDefaults_def blank_def logDebug_def)

lemma reachable_example_start: "reachable e example_start"
  unfolding example_start_def by (rule r_init)

lemma example_message_simps:
  "\<not> m_IsResponse example_request"
  "m_event example_request = Some [''fullCollectionName'' \<mapsto> IString ''db.users'']"
  "m_Ts example_request = 1000000000"
  "m_IsResponse example_response"
  "m_event example_response = Some [''numberReturned'' \<mapsto> IInt 1]"
  "m_error example_response = []"
  "m_Ts example_response = 1005000000"
  "m_IsResponse example_error_response"
  "m_event example_error_response = Some [''numberReturned'' \<mapsto> IInt 1]"
  "m_error example_error_response = ''boom''"
  "m_IsResponse example_late_response"
  "m_Ts example_late_response = 1000000000 + 2147483648 * 1000000"
  by (simp_all add: example_request_def example_response_def example_error_response_def
      example_late_response_def newMessage_def)

lemma run_pair:
  assumes "handleMongodb e s m1 t1 d1 = Inr s1" "handleMongodb e s1 m2 t2 d2 = Inr s2"
  shows "run e [Message m1 t1 d1, Message m2 t2 d2] s = s2"
  using assms by (simp add: run_def step_def)

lemma fieldMap_publishedEvent:
  "event t = Some fm \<Longrightarrow> fieldMap (publishedEvent e t) = fm"
  by (simp add: fieldMap_def publishedEvent_lookup)


text \<open>
  Claim C1, amended.  In a reachable state with a results channel attached, a request
  whose field map is allocated and then a response on the same connection, whatever the
  direction of each and whatever is written to the log in between, publish exactly one
  event: the request publishes nothing and the response appends one event.  The field
  map of that event is the request's fields overridden by the response's fields, and it
  holds in addition the key \<^verbatim>\<open>error\<close> with the response's error text when that text
  is not empty.  The entry of the connection is gone from the table afterwards.
\<close>

theorem pairing_publishes_merged_fields:
  assumes "reachable e s" "results s = Some sent" "\<not> m_IsResponse req"
    "m_event req = Some em" "m_IsResponse resp"
  shows "\<exists>s1 s2 ev. handleMongodb e s req tcpt dir1 = Inr s1 \<and> results s1 = Some sent \<and>
    handleMongodb e (s1\<lparr>log := l\<rparr>) resp tcpt dir2 = Inr s2 \<and>
    results s2 = Some (sent @ [ev]) \<and>
    ev ''mongodb'' =
      Some (IMapStr (Some
        (if m_error resp = [] then em ++ fieldsOf (m_event resp)
         else (em ++ fieldsOf (m_event resp))(''error'' \<mapsto> IString (m_error resp))))) \<and>
    transactionsMap s2 (Hashable tcpt) = None"
proof -
  from pairing [OF assms, of tcpt dir1 l dir2]
  obtain s1 s2 t where h: "handleMongodb e s req tcpt dir1 = Inr s1" "results s1 = Some sent"
    "handleMongodb e (s1\<lparr>log := l\<rparr>) resp tcpt dir2 = Inr s2"
    "results s2 = Some (sent @ [publishedEvent e t])"
    "event t = Some (if m_error resp = [] then em ++ fieldsOf (m_event resp)
                    else (em ++ fieldsOf (m_event resp))(''error'' \<mapsto> IString (m_error resp)))"
    "transactionsMap s2 (Hashable tcpt) = None"
    by blast
  have "publishedEvent e t ''mongodb'' = Some (IMapStr (Some
        (if m_error resp = [] then em ++ fieldsOf (m_event resp)
         else (em ++ fieldsOf (m_event resp))(''error'' \<mapsto> IString (m_error resp)))))"
    using h(5) by (simp add: publishedEvent_lookup)
  with h show ?thesis by blast
qed

theorem pairing_publishes_merged_fields_witness:
  "reachable example_env
     (logDebug ''mongodb'' ''MongoDB message complete''
        (logDebug ''mongodb'' ''Parse method triggered'' example_start)) \<and>
   results (logDebug ''mongodb'' ''MongoDB message complete''
        (logDebug ''mongodb'' ''Parse method triggered'' example_start)) = Some [] \<and>
   \<not> m_IsResponse example_request \<and>
   m_event example_request = Some [''fullCollectionName'' \<mapsto> IString ''db.users''] \<and>
   m_IsResponse example_response \<and>
   (\<exists>s1 s2 ev.
      handleMongodb example_env
        (logDebug ''mongodb'' ''MongoDB message complete''
           (logDebug ''mongodb'' ''Parse method triggered'' example_start))
        example_request example_tuple 1 = Inr s1 \<and>
      results s1 = Some [] \<and>
      handleMongodb example_env
        (s1\<lparr>log := [Debug ''mongodb'' ''Parse method triggered'',
                      Debug ''mongodb'' ''MongoDB message complete'']\<rparr>)
        example_response example_tuple 0 = Inr s2 \<and>
      results s2 = Some [ev] \<and>
      ev ''mongodb'' =
        Some (IMapStr (Some [''fullCollectionName'' \<mapsto> IString ''db.users'',
                             ''numberReturned'' \<mapsto> IInt 1])) \<and>
      transactionsMap s2 (Hashable example_tuple) = None)"
proof -
  let ?s = "logDebug ''mongodb'' ''MongoDB message complete''
        (logDebug ''mongodb'' ''Parse method triggered'' example_start)"
  have r: "reachable example_env ?s"
    by (intro reachable_logs reachable_example_start)
  have q: "results ?s = Some []" by (simp add: example_start_simps)
  from pairing_publishes_merged_fields [OF r q example_message_simps(1,2,4),
     of example_tuple 1 "[Debug ''mongodb'' ''Parse method triggered'',
                      Debug ''mongodb'' ''MongoDB message complete'']" 0]
  show ?thesis using r q
    by (simp add: example_message_simps fieldsOf_def)
qed

theorem pairing_field_map_counterexample:
  "fieldMap (hd (published (run example_env
      [Message example_request example_tuple 1,
       Message example_error_response example_tuple 0] example_start)))
   \<noteq> fieldsOf (m_event example_request) ++ fieldsOf (m_event example_error_response)"
proof -
  let ?em = "[''fullCollectionName'' \<mapsto> IString ''db.users'']"
  let ?l = "log (run example_env [Message example_request example_tuple 1] example_start)"
  from pairing [OF reachable_example_start example_start_simps(1) example_message_simps(1,2,8),
      of example_env example_tuple 1 ?l 0]
  obtain s1 s2 t where h:
    "handleMongodb example_env example_start example_request example_tuple 1 = Inr s1"
    "handleMongodb example_env (s1\<lparr>log := ?l\<rparr>) example_error_response example_tuple 0
       = Inr s2"
    "results s2 = Some ([] @ [publishedEvent example_env t])"
    "event t = Some (if m_error example_error_response = []
                     then ?em ++ fieldsOf (m_event example_error_response)
                     else (?em ++ fieldsOf (m_event example_error_response))
                            (''error'' \<mapsto> IString (m_error example_error_response)))"
    by blast
  have "?l = log s1" using h(1) by (simp add: run_def step_def)
  with h(2) have h2: "handleMongodb example_env s1 example_error_response example_tuple 0
       = Inr s2" by simp
  have "fieldMap (hd (published s2)) ''error'' = Some (IString ''boom'')"
    using h(3,4) by (simp add: published_def fieldMap_publishedEvent example_message_simps)
  moreover have "(fieldsOf (m_event example_request) ++
      fieldsOf (m_event example_error_response)) ''error'' = None"
    by (simp add: example_message_simps fieldsOf_def map_add_def)
  ultimately show ?thesis unfolding run_pair [OF h(1) h2] by auto
qed





text \<open>
  Claim C7.  A response on a connection with no open transaction in the table is
  discarded: the handler returns with the events sent, the table, the transaction
  objects and the timers unchanged; only the log grows, by the warning.
\<close>

theorem orphan_response_discarded:
  assumes "m_IsResponse m" "\<not> openTransaction s (Hashable tcpt)"
  shows "\<exists>s'. handleMongodb e s m tcpt dir = Inr s' \<and>
    results s' = results s \<and> transactionsMap s' = transactionsMap s \<and>
    objects s' = objects s \<and> timers s' = timers s \<and>
    log s' = log s @ [Debug ''mongodb'' ''MongoDB response message'',
                      Warn ''Response from unknown transaction. Ignoring.'']"
  using assms
  by (simp add: handleMongodb_def Let_def receivedMongodbResponse_def openTransaction_def
      split: option.splits)

theorem orphan_response_discarded_witness:
  "m_IsResponse example_response \<and> \<not> openTransaction example_start (Hashable example_tuple) \<and>
   (\<exists>s'. handleMongodb example_env example_start example_response example_tuple 0 = Inr s' \<and>
      results s' = Some [] \<and> transactionsMap s' = Map.empty)"
proof -
  have a: "\<not> openTransaction example_start (Hashable example_tuple)"
    by (simp add: openTransaction_def example_start_simps)
  from orphan_response_discarded [OF example_message_simps(4) a, of example_env 0]
  show ?thesis using a by (simp add: example_message_simps example_start_simps) blast
qed

subsection \<open>Timeouts and superseding requests\<close>

lemma timerFires_status:
  "status (timers (timerFires s tid) x) =
     (if x = tid \<and> tid < next_timer s \<and> status (timers s tid) = Armed then Fired
      else status (timers s x))"
  by (simp add: timerFires_def)

lemma runCallback_status:
  "status (timers (runCallback s tid) x) =
     (if x = tid \<and> tid < next_timer s \<and> status (timers s tid) = Fired then Finished
      else status (timers s x))"
  by (simp add: runCallback_def)

lemma timeout_armed:
  assumes "tid < next_timer s" "status (timers s tid) = Armed"
  shows "transactionsMap (timeout s tid) =
      (transactionsMap s)(Hashable (tuple (objects s (target (timers s tid)))) := None)"
    "results (timeout s tid) = results s"
  using assms by (simp_all add: timeout_def runCallback_table timerFires_status)

lemma TransactionTimeout_seconds: "TransactionTimeout = 10 * Second"
  by (simp add: TransactionTimeout_def Second_def)

text \<open>
  Claim C3.  In a reachable state, a request arms a timer of ten seconds for the
  transaction stored under the connection's key.  When the timeout of an open
  transaction fires while its timer is still armed (no response has come), the entry is
  removed from the table, the other entries stay, no event is published, and the timer
  had a duration of ten seconds.
\<close>

theorem timeout_removes_without_publishing:
  assumes "reachable e s"
  shows "(\<not> m_IsResponse m \<longrightarrow>
      (\<exists>s1 a tid. handleMongodb e s m tcpt dir = Inr s1 \<and>
         transactionsMap s1 (Hashable tcpt) = Some a \<and> timer (objects s1 a) = Some tid \<and>
         timers s1 tid = \<lparr>status = Armed, duration = 10 * Second, target = a\<rparr>)) \<and>
    (transactionsMap s k = Some a \<and> timer (objects s a) = Some tid \<and>
     status (timers s tid) = Armed \<longrightarrow>
       duration (timers s tid) = 10 * Second \<and>
       transactionsMap (timeout s tid) k = None \<and>
       (\<forall>k'. k' \<noteq> k \<longrightarrow> transactionsMap (timeout s tid) k' = transactionsMap s k') \<and>
       results (timeout s tid) = results s)"
proof (intro conjI impI)
  assume req: "\<not> m_IsResponse m"
  let ?a = "request_addr s tcpt"
  let ?s2 = "updateObject ?a
             (requestEndpoints e
                (m\<lparr>m_TcpTuple := tcpt, m_Direction := dir,
                   m_CmdlineTuple := Some (FindProcessesTuple e tcpt)\<rparr>)
                (FindProcessesTuple e tcpt))
             (updateObject ?a
                (requestFields
                   (m\<lparr>m_TcpTuple := tcpt, m_Direction := dir,
                      m_CmdlineTuple := Some (FindProcessesTuple e tcpt)\<rparr>))
                (fst (lookupOrCreate (logDebug ''mongodb'' ''MongoDB request message'' s)
                       tcpt)))"
  have nt: "next_timer ?s2 = next_timer s" by (simp add: lookupOrCreate_simps)
  have "transactionsMap (rearmTimer ?a ?s2) (Hashable tcpt) = Some ?a"
    by (simp add: rearmTimer_simps lookupOrCreate_simps)
  moreover have "timer (objects (rearmTimer ?a ?s2) ?a) = Some (next_timer s)"
    by (simp add: rearmTimer_simps lookupOrCreate_simps)
  moreover have "timers (rearmTimer ?a ?s2) (next_timer s) =
      \<lparr>status = Armed, duration = 10 * Second, target = ?a\<rparr>"
    using rearmTimer_new [of ?a ?s2] by (simp add: TransactionTimeout_seconds)
  ultimately show "\<exists>s1 a tid. handleMongodb e s m tcpt dir = Inr s1 \<and>
         transactionsMap s1 (Hashable tcpt) = Some a \<and> timer (objects s1 a) = Some tid \<and>
         timers s1 tid = \<lparr>status = Armed, duration = 10 * Second, target = a\<rparr>"
    unfolding handle_request_eq [OF req] by blast
next
  assume h: "transactionsMap s k = Some a \<and> timer (objects s a) = Some tid \<and>
     status (timers s tid) = Armed"
  have c: "consistent s" using assms by (rule reachable_consistent)
  note d = consistentD(2) [OF c conjunct1 [OF h]]
    consistentD(4-6) [OF c conjunct1 [OF h] conjunct1 [OF conjunct2 [OF h]]]
  note t = timeout_armed [OF d(2) conjunct2 [OF conjunct2 [OF h]]]
  show "duration (timers s tid) = 10 * Second"
    using d(4) by (simp add: TransactionTimeout_seconds)
  show "transactionsMap (timeout s tid) k = None"
    unfolding t using d(1,3) by simp
  show "\<forall>k'. k' \<noteq> k \<longrightarrow> transactionsMap (timeout s tid) k' = transactionsMap s k'"
    unfolding t using d(1,3) by simp
  show "results (timeout s tid) = results s" by (rule t(2))
qed

lemma example_request_state:
  "\<exists>s1. handleMongodb example_env example_start example_request example_tuple 1 = Inr s1 \<and>
     run example_env [Message example_request example_tuple 1] example_start = s1 \<and>
     transactionsMap s1 = [Hashable example_tuple \<mapsto> 0] \<and>
     timer (objects s1 0) = Some 0 \<and>
     tuple (objects s1 0) = example_tuple \<and>
     timers s1 0 = \<lparr>status = Armed, duration = TransactionTimeout, target = 0\<rparr> \<and>
     next_timer s1 = 1 \<and> next_object s1 = 1 \<and> results s1 = Some [] \<and>
     event (objects s1 0) = m_event example_request \<and>
     Mongodb (objects s1 0) = Some Map.empty"
proof -
  have a: "request_addr example_start example_tuple = 0"
    by (simp add: request_addr_def example_start_simps)
  let ?s2 = "updateObject 0
             (requestEndpoints example_env
                (example_request\<lparr>m_TcpTuple := example_tuple, m_Direction := 1,
                   m_CmdlineTuple := Some (FindProcessesTuple example_env example_tuple)\<rparr>)
                (FindProcessesTuple example_env example_tuple))
             (updateObject 0
                (requestFields
                   (example_request\<lparr>m_TcpTuple := example_tuple, m_Direction := 1,
                      m_CmdlineTuple := Some (FindProcessesTuple example_env example_tuple)\<rparr>))
                (fst (lookupOrCreate
                       (logDebug ''mongodb'' ''MongoDB request message'' example_start)
                       example_tuple)))"
  have eq: "handleMongodb example_env example_start example_request example_tuple 1 =
      Inr (rearmTimer 0 ?s2)"
    using handle_request_eq [OF example_message_simps(1), of example_env example_start
        example_tuple 1]
    unfolding a .
  have nt: "next_timer ?s2 = 0" by (simp add: lookupOrCreate_simps example_start_simps)
  have "timers (rearmTimer 0 ?s2) 0 =
      \<lparr>status = Armed, duration = TransactionTimeout, target = 0\<rparr>"
    using rearmTimer_new [of 0 ?s2] unfolding nt .
  then show ?thesis
    unfolding eq
    by (simp add: run_def step_def eq rearmTimer_simps lookupOrCreate_simps
        example_start_simps a newTransaction_def)
qed

lemma openTransactions_subset:
  assumes "consistent s"
  shows "openTransactions s k \<subseteq> (case transactionsMap s k of None \<Rightarrow> {} | Some a \<Rightarrow> {a})"
proof
  fix a assume "a \<in> openTransactions s k"
  then obtain k' where k': "transactionsMap s k' = Some a"
    and k: "Hashable (tuple (objects s a)) = k"
    by (auto simp add: openTransactions_def ran_def)
  from consistentD(2) [OF assms k'] k have "k' = k" by simp
  with k' show "a \<in> (case transactionsMap s k of None \<Rightarrow> {} | Some a \<Rightarrow> {a})" by simp
qed

lemma openTransactions_card:
  assumes "consistent s"
  shows "finite (openTransactions s k) \<and> card (openTransactions s k) \<le> 1"
proof -
  let ?B = "case transactionsMap s k of None \<Rightarrow> {} | Some a \<Rightarrow> {a}"
  have f: "finite ?B" and c: "card ?B \<le> 1" by (simp_all split: option.split)
  from openTransactions_subset [OF assms, of k] f
  have "finite (openTransactions s k)" by (rule finite_subset)
  moreover have "card (openTransactions s k) \<le> card ?B"
    using openTransactions_subset [OF assms, of k] f by (simp add: card_mono)
  ultimately show ?thesis using c by simp
qed

text \<open>
  At most one open transaction per connection identity in every reachable state; and a
  second request on a connection whose transaction is open with its timer still armed.
\<close>

lemma superseding_request_armed:
  assumes "reachable e s"
  shows "finite (openTransactions s k) \<and> card (openTransactions s k) \<le> 1 \<and>
    (\<not> m_IsResponse m \<and> transactionsMap s (Hashable tcpt) = Some a \<and>
     timer (objects s a) = Some tid \<and> status (timers s tid) = Armed \<longrightarrow>
       (\<exists>s'. handleMongodb e s m tcpt dir = Inr s' \<and>
          transactionsMap s' = transactionsMap s \<and>
          t_method (objects s' a) = m_method m \<and>
          event (objects s' a) = m_event m \<and>
          ts (objects s' a) = m_Ts m \<and>
          Src (objects s' a) =
            (if dir = TcpDirectionReverse e
             then \<lparr>Ip = Dst_ip tcpt, Port = Dst_port tcpt,
                   Proc = Cmd_Dst (FindProcessesTuple e tcpt)\<rparr>
             else \<lparr>Ip = Src_ip tcpt, Port = Src_port tcpt,
                   Proc = Cmd_Src (FindProcessesTuple e tcpt)\<rparr>) \<and>
          Dst (objects s' a) =
            (if dir = TcpDirectionReverse e
             then \<lparr>Ip = Src_ip tcpt, Port = Src_port tcpt,
                   Proc = Cmd_Src (FindProcessesTuple e tcpt)\<rparr>
             else \<lparr>Ip = Dst_ip tcpt, Port = Dst_port tcpt,
                   Proc = Cmd_Dst (FindProcessesTuple e tcpt)\<rparr>) \<and>
          log s' = log s @ [Debug ''mongodb'' ''MongoDB request message'',
                            Warn ''Two requests without a Response. Dropping old request''] \<and>
          status (timers s' tid) = Stopped \<and>
          timer (objects s' a) = Some (next_timer s) \<and> tid \<noteq> next_timer s \<and>
          timers s' (next_timer s) =
            \<lparr>status = Armed, duration = TransactionTimeout, target = a\<rparr>))"
proof -
  have c: "consistent s" using assms by (rule reachable_consistent)
  have second: "\<exists>s'. handleMongodb e s m tcpt dir = Inr s' \<and>
          transactionsMap s' = transactionsMap s \<and>
          t_method (objects s' a) = m_method m \<and>
          event (objects s' a) = m_event m \<and>
          ts (objects s' a) = m_Ts m \<and>
          Src (objects s' a) =
            (if dir = TcpDirectionReverse e
             then \<lparr>Ip = Dst_ip tcpt, Port = Dst_port tcpt,
                   Proc = Cmd_Dst (FindProcessesTuple e tcpt)\<rparr>
             else \<lparr>Ip = Src_ip tcpt, Port = Src_port tcpt,
                   Proc = Cmd_Src (FindProcessesTuple e tcpt)\<rparr>) \<and>
          Dst (objects s' a) =
            (if dir = TcpDirectionReverse e
             then \<lparr>Ip = Src_ip tcpt, Port = Src_port tcpt,
                   Proc = Cmd_Src (FindProcessesTuple e tcpt)\<rparr>
             else \<lparr>Ip = Dst_ip tcpt, Port = Dst_port tcpt,
                   Proc = Cmd_Dst (FindProcessesTuple e tcpt)\<rparr>) \<and>
          log s' = log s @ [Debug ''mongodb'' ''MongoDB request message'',
                            Warn ''Two requests without a Response. Dropping old request''] \<and>
          status (timers s' tid) = Stopped \<and>
          timer (objects s' a) = Some (next_timer s) \<and> tid \<noteq> next_timer s \<and>
          timers s' (next_timer s) =
            \<lparr>status = Armed, duration = TransactionTimeout, target = a\<rparr>"
    if req: "\<not> m_IsResponse m" and tab: "transactionsMap s (Hashable tcpt) = Some a"
      and tm: "timer (objects s a) = Some tid" and st: "status (timers s tid) = Armed"
  proof -
    have a: "request_addr s tcpt = a" using tab by (simp add: request_addr_def)
    note d = consistentD(3,4) [OF c tab]
    let ?m = "m\<lparr>m_TcpTuple := tcpt, m_Direction := dir,
                   m_CmdlineTuple := Some (FindProcessesTuple e tcpt)\<rparr>"
    let ?s2 = "updateObject a (requestEndpoints e ?m (FindProcessesTuple e tcpt))
               (updateObject a (requestFields ?m)
                  (fst (lookupOrCreate (logDebug ''mongodb'' ''MongoDB request message'' s)
                         tcpt)))"
    have eq: "handleMongodb e s m tcpt dir = Inr (rearmTimer a ?s2)"
      using handle_request_eq [OF req, of e s tcpt dir] unfolding a .
    have nt: "next_timer ?s2 = next_timer s" by (simp add: lookupOrCreate_simps)
    have ne: "tid \<noteq> next_timer s" using d(2) [OF tm] by simp
    have tm2: "timer (objects ?s2 a) = Some tid"
      using tab tm by (simp add: lookupOrCreate_simps)
    have st2: "status (timers ?s2 tid) = Armed"
      using st by (simp add: lookupOrCreate_simps)
    have "transactionsMap (rearmTimer a ?s2) = transactionsMap s"
      using tab by (simp add: rearmTimer_simps lookupOrCreate_simps a fun_upd_idem)
    moreover have "t_method (objects (rearmTimer a ?s2) a) = m_method m"
      "event (objects (rearmTimer a ?s2) a) = m_event m"
      "ts (objects (rearmTimer a ?s2) a) = m_Ts m"
      "timer (objects (rearmTimer a ?s2) a) = Some (next_timer s)"
      by (simp_all add: rearmTimer_simps lookupOrCreate_simps)
    moreover have "Src (objects (rearmTimer a ?s2) a) =
            (if dir = TcpDirectionReverse e
             then \<lparr>Ip = Dst_ip tcpt, Port = Dst_port tcpt,
                   Proc = Cmd_Dst (FindProcessesTuple e tcpt)\<rparr>
             else \<lparr>Ip = Src_ip tcpt, Port = Src_port tcpt,
                   Proc = Cmd_Src (FindProcessesTuple e tcpt)\<rparr>)"
      "Dst (objects (rearmTimer a ?s2) a) =
            (if dir = TcpDirectionReverse e
             then \<lparr>Ip = Src_ip tcpt, Port = Src_port tcpt,
                   Proc = Cmd_Src (FindProcessesTuple e tcpt)\<rparr>
             else \<lparr>Ip = Dst_ip tcpt, Port = Dst_port tcpt,
                   Proc = Cmd_Dst (FindProcessesTuple e tcpt)\<rparr>)"
      by (simp_all add: rearmTimer_simps requestEndpoints_Src_Dst)
    moreover have "log (rearmTimer a ?s2) =
        log s @ [Debug ''mongodb'' ''MongoDB request message'',
                 Warn ''Two requests without a Response. Dropping old request'']"
      using tab d(1) by (simp add: rearmTimer_simps lookupOrCreate_log)
    moreover have "status (timers (rearmTimer a ?s2) tid) = Stopped"
      using rearmTimer_old(3) [of tid ?s2 a] ne tm2 st2 by simp
    moreover have "timers (rearmTimer a ?s2) (next_timer s) =
        \<lparr>status = Armed, duration = TransactionTimeout, target = a\<rparr>"
      using rearmTimer_new [of a ?s2] by simp
    ultimately show ?thesis unfolding eq using ne by simp
  qed
  from openTransactions_card [OF c, of k] second show ?thesis by blast
qed

subsection \<open>A timeout that runs late\<close>

lemma run_Nil [simp]: "run e [] s = s"
  by (simp add: run_def)

lemma run_snoc: "run e (evs @ [ev]) s = step e (run e evs s) ev"
  by (simp add: run_def)

lemma step_timer [simp]:
  "step e s (TimerFires tid) = timerFires s tid"
  "step e s (CallbackRuns tid) = runCallback s tid"
  by (simp_all add: step_def)

text \<open>The effect of a request as a step.\<close>

lemma step_request:
  assumes "\<not> m_IsResponse m"
  shows "transactionsMap (step e s (Message m tcpt dir)) =
      (transactionsMap s)(Hashable tcpt \<mapsto> request_addr s tcpt)"
    "results (step e s (Message m tcpt dir)) = results s"
    "next_timer (step e s (Message m tcpt dir)) = Suc (next_timer s)"
    "next_object (step e s (Message m tcpt dir)) =
      (if transactionsMap s (Hashable tcpt) = None then Suc (next_object s)
       else next_object s)"
    "target (timers (step e s (Message m tcpt dir)) x) =
      (if x = next_timer s then request_addr s tcpt else target (timers s x))"
    "tuple (objects (step e s (Message m tcpt dir)) b) =
      (if b = request_addr s tcpt \<and> transactionsMap s (Hashable tcpt) = None then tcpt
       else tuple (objects s b))"
    "Mongodb (objects (step e s (Message m tcpt dir)) b) =
      (if b = request_addr s tcpt then Some Map.empty else Mongodb (objects s b))"
    "event (objects (step e s (Message m tcpt dir)) b) =
      (if b = request_addr s tcpt then m_event m else event (objects s b))"
    "timer (objects (step e s (Message m tcpt dir)) b) =
      (if b = request_addr s tcpt then Some (next_timer s) else timer (objects s b))"
    "status (timers (step e s (Message m tcpt dir)) (next_timer s)) = Armed"
  unfolding step_def event.case handle_request_eq [OF assms] sum.case
  by (simp_all add: rearmTimer_simps lookupOrCreate_simps rearmTimer_timers
      request_addr_def newTransaction_def split: option.split)

lemma step_request_status:
  assumes "\<not> m_IsResponse m" "x \<noteq> next_timer s"
  shows "status (timers (step e s (Message m tcpt dir)) x) =
      (if (\<exists>a. transactionsMap s (Hashable tcpt) = Some a \<and> timer (objects s a) = Some x) \<and>
          status (timers s x) = Armed
       then Stopped else status (timers s x))"
  unfolding step_def event.case handle_request_eq [OF assms(1)] sum.case
  using assms(2)
  by (simp add: rearmTimer_old lookupOrCreate_simps request_addr_def newTransaction_def
      split: option.split)

text \<open>The effect as a step of a response to an open transaction, with a sink attached.\<close>

lemma step_response:
  assumes "m_IsResponse m" "transactionsMap s (Hashable tcpt) = Some a"
    "Mongodb (objects s a) \<noteq> None" "event (objects s a) = Some em" "results s = Some sent"
  shows "transactionsMap (step e s (Message m tcpt dir)) =
      (transactionsMap s)(Hashable (tuple (objects s a)) := None)"
    "next_timer (step e s (Message m tcpt dir)) = next_timer s"
    "next_object (step e s (Message m tcpt dir)) = next_object s"
    "target (timers (step e s (Message m tcpt dir)) x) = target (timers s x)"
    "tuple (objects (step e s (Message m tcpt dir)) b) = tuple (objects s b)"
    "status (timers (step e s (Message m tcpt dir)) x) =
      (if timer (objects s a) = Some x \<and> status (timers s x) = Armed then Stopped
       else status (timers s x))"
    "length (published (step e s (Message m tcpt dir))) = Suc (length sent)"
proof -
  let ?u = "updateObject a
          (responseFields
             (m\<lparr>m_TcpTuple := tcpt, m_Direction := dir,
                m_CmdlineTuple := Some (FindProcessesTuple e tcpt)\<rparr>)
             (Some (em ++ fieldsOf (m_event m))))
          (logDebug ''mongodb'' ''MongoDB response message'' s)"
  have r: "results ?u = Some sent" using assms(5) by simp
  have ev: "event (objects ?u a) = Some (em ++ fieldsOf (m_event m))" by simp
  note eq = handle_response_eq [OF assms, of e dir] publish_eq [OF r ev, of e]
  show "transactionsMap (step e s (Message m tcpt dir)) =
      (transactionsMap s)(Hashable (tuple (objects s a)) := None)"
    "next_timer (step e s (Message m tcpt dir)) = next_timer s"
    "next_object (step e s (Message m tcpt dir)) = next_object s"
    "target (timers (step e s (Message m tcpt dir)) x) = target (timers s x)"
    "tuple (objects (step e s (Message m tcpt dir)) b) = tuple (objects s b)"
    "status (timers (step e s (Message m tcpt dir)) x) =
      (if timer (objects s a) = Some x \<and> status (timers s x) = Armed then Stopped
       else status (timers s x))"
    "length (published (step e s (Message m tcpt dir))) = Suc (length sent)"
    unfolding step_def event.case eq sum.case
    by (simp_all add: removeTransaction_status published_def)
qed

text \<open>
  The race on the example connection: a request, its timer fires, the response, a second
  request; the callback of the first timer has not run yet.
\<close>

lemma example_race:
  "transactionsMap (run example_env
      [Message example_request example_tuple 1, TimerFires 0,
       Message example_response example_tuple 0] example_start) = Map.empty"
  "transactionsMap (run example_env
      [Message example_request example_tuple 1, TimerFires 0,
       Message example_response example_tuple 0,
       Message example_request example_tuple 1] example_start) =
     [Hashable example_tuple \<mapsto> 1]"
  "\<And>evs. evs = [Message example_request example_tuple 1, TimerFires 0,
       Message example_response example_tuple 0] \<or>
     evs = [Message example_request example_tuple 1, TimerFires 0,
       Message example_response example_tuple 0,
       Message example_request example_tuple 1] \<Longrightarrow>
     target (timers (run example_env evs example_start) 0) = 0 \<and>
     status (timers (run example_env evs example_start) 0) = Fired \<and>
     0 < next_timer (run example_env evs example_start) \<and>
     tuple (objects (run example_env evs example_start) 0) = example_tuple"
proof -
  let ?req = "Message example_request example_tuple 1"
  let ?resp = "Message example_response example_tuple 0"
  let ?s1 = "run example_env [?req] example_start"
  let ?s2 = "run example_env [?req, TimerFires 0] example_start"
  let ?s3 = "run example_env [?req, TimerFires 0, ?resp] example_start"
  let ?s4 = "run example_env [?req, TimerFires 0, ?resp, ?req] example_start"
  from example_request_state
  have s1: "transactionsMap ?s1 = [Hashable example_tuple \<mapsto> 0]"
    "timer (objects ?s1 0) = Some 0" "tuple (objects ?s1 0) = example_tuple"
    "timers ?s1 0 = \<lparr>status = Armed, duration = TransactionTimeout, target = 0\<rparr>"
    "next_timer ?s1 = 1" "next_object ?s1 = 1" "results ?s1 = Some []"
    "event (objects ?s1 0) = m_event example_request"
    "Mongodb (objects ?s1 0) = Some Map.empty"
    by auto
  have e2: "?s2 = timerFires ?s1 0" using run_snoc [of example_env "[?req]"] by simp
  have s2: "transactionsMap ?s2 = [Hashable example_tuple \<mapsto> 0]"
    "timer (objects ?s2 0) = Some 0" "tuple (objects ?s2 0) = example_tuple"
    "status (timers ?s2 0) = Fired" "target (timers ?s2 0) = 0"
    "next_timer ?s2 = 1" "next_object ?s2 = 1" "results ?s2 = Some []"
    "event (objects ?s2 0) = Some [''fullCollectionName'' \<mapsto> IString ''db.users'']"
    "Mongodb (objects ?s2 0) \<noteq> None"
    unfolding e2 using s1 by (simp_all add: timerFires_status example_message_simps)
  have e3: "?s3 = step example_env ?s2 ?resp"
    using run_snoc [of example_env "[?req, TimerFires 0]"] by simp
  have tab2: "transactionsMap ?s2 (Hashable example_tuple) = Some 0" using s2(1) by simp
  note r = step_response [OF example_message_simps(4) tab2 s2(10) s2(9) s2(8),
      of example_env 0]
  have s3: "transactionsMap ?s3 = Map.empty" "tuple (objects ?s3 0) = example_tuple"
    "status (timers ?s3 0) = Fired" "target (timers ?s3 0) = 0"
    "next_timer ?s3 = 1" "next_object ?s3 = 1"
    unfolding e3 r using s2 by simp_all
  have e4: "?s4 = step example_env ?s3 ?req"
    using run_snoc [of example_env "[?req, TimerFires 0, ?resp]"] by simp
  have a4: "request_addr ?s3 example_tuple = 1" by (simp add: request_addr_def s3)
  note q = step_request [OF example_message_simps(1), of example_env ?s3 example_tuple 1]
  have s4: "transactionsMap ?s4 = [Hashable example_tuple \<mapsto> 1]"
    "tuple (objects ?s4 0) = example_tuple" "target (timers ?s4 0) = 0"
    "next_timer ?s4 = 2"
    unfolding e4 q a4 using s3 by simp_all
  have st4: "status (timers ?s4 0) = Fired"
    unfolding e4
    using step_request_status [OF example_message_simps(1), of 0 ?s3 example_env example_tuple 1]
      s3 by simp
  show "transactionsMap ?s3 = Map.empty" by (rule s3(1))
  show "transactionsMap ?s4 = [Hashable example_tuple \<mapsto> 1]" by (rule s4(1))
  fix evs
  assume "evs = [?req, TimerFires 0, ?resp] \<or> evs = [?req, TimerFires 0, ?resp, ?req]"
  then show "target (timers (run example_env evs example_start) 0) = 0 \<and>
     status (timers (run example_env evs example_start) 0) = Fired \<and>
     0 < next_timer (run example_env evs example_start) \<and>
     tuple (objects (run example_env evs example_start) 0) = example_tuple"
    using s3 s4 st4 by auto
qed

text \<open>
  Claim C6, where the code departs from it.  A request arrives, its timer fires (the
  callback is started and has not run yet), the response removes the entry, and a
  second request stores a new transaction under the same connection key.  The callback
  of the first timer then runs: it is bound to the first transaction, and it deletes the
  entry of the second.
\<close>

theorem stale_timeout_removes_later_transaction:
  "reachable example_env (run example_env
      [Message example_request example_tuple 1, TimerFires 0,
       Message example_response example_tuple 0,
       Message example_request example_tuple 1] example_start) \<and>
   transactionsMap (run example_env
      [Message example_request example_tuple 1, TimerFires 0,
       Message example_response example_tuple 0] example_start)
     (Hashable example_tuple) = None \<and>
   target (timers (run example_env
      [Message example_request example_tuple 1, TimerFires 0,
       Message example_response example_tuple 0,
       Message example_request example_tuple 1] example_start) 0) = 0 \<and>
   transactionsMap (run example_env
      [Message example_request example_tuple 1, TimerFires 0,
       Message example_response example_tuple 0,
       Message example_request example_tuple 1] example_start)
     (Hashable example_tuple) = Some 1 \<and>
   transactionsMap (runCallback (run example_env
      [Message example_request example_tuple 1, TimerFires 0,
       Message example_response example_tuple 0,
       Message example_request example_tuple 1] example_start) 0)
     (Hashable example_tuple) = None"
  using example_race(3) [of "[Message example_request example_tuple 1, TimerFires 0,
       Message example_response example_tuple 0,
       Message example_request example_tuple 1]"]
    reachable_run [OF reachable_example_start, of example_env
      "[Message example_request example_tuple 1, TimerFires 0,
       Message example_response example_tuple 0,
       Message example_request example_tuple 1]"]
  by (simp add: example_race(1,2) runCallback_table)

text \<open>
  The same race with a superseding request: a request, its timer fires, a second request
  on the same connection.
\<close>

lemma example_superseded:
  "openTransaction (run example_env
      [Message example_request example_tuple 1, TimerFires 0] example_start)
     (Hashable example_tuple)"
  "transactionsMap (run example_env
      [Message example_request example_tuple 1, TimerFires 0,
       Message example_request example_tuple 1] example_start) =
     [Hashable example_tuple \<mapsto> 0]"
  "status (timers (run example_env
      [Message example_request example_tuple 1, TimerFires 0,
       Message example_request example_tuple 1] example_start) 0) = Fired"
  "target (timers (run example_env
      [Message example_request example_tuple 1, TimerFires 0,
       Message example_request example_tuple 1] example_start) 0) = 0"
  "timer (objects (run example_env
      [Message example_request example_tuple 1, TimerFires 0,
       Message example_request example_tuple 1] example_start) 0) = Some 1"
  "status (timers (run example_env
      [Message example_request example_tuple 1, TimerFires 0,
       Message example_request example_tuple 1] example_start) 1) = Armed"
  "next_timer (run example_env
      [Message example_request example_tuple 1, TimerFires 0,
       Message example_request example_tuple 1] example_start) = 2"
  "tuple (objects (run example_env
      [Message example_request example_tuple 1, TimerFires 0,
       Message example_request example_tuple 1] example_start) 0) = example_tuple"
proof -
  let ?req = "Message example_request example_tuple 1"
  let ?s1 = "run example_env [?req] example_start"
  let ?s2 = "run example_env [?req, TimerFires 0] example_start"
  let ?s3 = "run example_env [?req, TimerFires 0, ?req] example_start"
  from example_request_state
  have s1: "transactionsMap ?s1 = [Hashable example_tuple \<mapsto> 0]"
    "timer (objects ?s1 0) = Some 0" "tuple (objects ?s1 0) = example_tuple"
    "timers ?s1 0 = \<lparr>status = Armed, duration = TransactionTimeout, target = 0\<rparr>"
    "next_timer ?s1 = 1" "next_object ?s1 = 1"
    "Mongodb (objects ?s1 0) = Some Map.empty"
    by auto
  have e2: "?s2 = timerFires ?s1 0" using run_snoc [of example_env "[?req]"] by simp
  have s2: "transactionsMap ?s2 = [Hashable example_tuple \<mapsto> 0]"
    "timer (objects ?s2 0) = Some 0" "tuple (objects ?s2 0) = example_tuple"
    "status (timers ?s2 0) = Fired" "target (timers ?s2 0) = 0"
    "next_timer ?s2 = 1" "next_object ?s2 = 1"
    "Mongodb (objects ?s2 0) \<noteq> None"
    unfolding e2 using s1 by (simp_all add: timerFires_status)
  show "openTransaction ?s2 (Hashable example_tuple)"
    using s2 by (simp add: openTransaction_def)
  have e3: "?s3 = step example_env ?s2 ?req"
    using run_snoc [of example_env "[?req, TimerFires 0]"] by simp
  have a3: "request_addr ?s2 example_tuple = 0" by (simp add: request_addr_def s2)
  note q = step_request [OF example_message_simps(1), of example_env ?s2 example_tuple 1]
  show "transactionsMap ?s3 = [Hashable example_tuple \<mapsto> 0]"
    "target (timers ?s3 0) = 0" "timer (objects ?s3 0) = Some 1" "next_timer ?s3 = 2"
    "tuple (objects ?s3 0) = example_tuple"
    unfolding e3 q a3 using s2 by simp_all
  show "status (timers ?s3 0) = Fired"
    unfolding e3
    using step_request_status [OF example_message_simps(1), of 0 ?s2 example_env example_tuple 1]
      s2 by simp
  show "status (timers ?s3 1) = Armed"
    unfolding e3 using q(10) s2(6) by simp
qed

text \<open>
  Claim C2, where the code departs from it.  A request arrives, its timer fires (the
  callback is started and has not run yet), and a second request arrives on the same
  connection while the first is open.  The table still holds the one transaction of the
  connection, now with a new armed timer; but \<^verbatim>\<open>Timer.Stop\<close> does nothing to a timer
  that has fired, so the earlier timer is not cancelled, and when its callback runs it
  deletes the entry of the superseding request.
\<close>

theorem superseding_request_leaves_fired_timer:
  "reachable example_env (run example_env
      [Message example_request example_tuple 1, TimerFires 0,
       Message example_request example_tuple 1] example_start) \<and>
   openTransaction (run example_env
      [Message example_request example_tuple 1, TimerFires 0] example_start)
     (Hashable example_tuple) \<and>
   transactionsMap (run example_env
      [Message example_request example_tuple 1, TimerFires 0,
       Message example_request example_tuple 1] example_start)
     (Hashable example_tuple) = Some 0 \<and>
   status (timers (run example_env
      [Message example_request example_tuple 1, TimerFires 0,
       Message example_request example_tuple 1] example_start) 0) = Fired \<and>
   timer (objects (run example_env
      [Message example_request example_tuple 1, TimerFires 0,
       Message example_request example_tuple 1] example_start) 0) = Some 1 \<and>
   status (timers (run example_env
      [Message example_request example_tuple 1, TimerFires 0,
       Message example_request example_tuple 1] example_start) 1) = Armed \<and>
   transactionsMap (runCallback (run example_env
      [Message example_request example_tuple 1, TimerFires 0,
       Message example_request example_tuple 1] example_start) 0)
     (Hashable example_tuple) = None"
  using reachable_run [OF reachable_example_start, of example_env
      "[Message example_request example_tuple 1, TimerFires 0,
       Message example_request example_tuple 1]"]
    example_superseded
  by (simp add: runCallback_table)

subsection \<open>Stream buffers and the decoder\<close>

lemma dir_cases: "unat (dir :: 8 word) < 2 \<Longrightarrow> dir = 0 \<or> dir = 1"
  by (auto simp add: word_unat_eq_iff)

lemma Data_at_set_same [simp]: "Data_at (Data_set priv dir v) dir = v"
  by (simp add: Data_at_def Data_set_def)

lemma Data_at_set_other:
  "unat dir < 2 \<Longrightarrow> unat dir' < 2 \<Longrightarrow> dir' \<noteq> dir \<Longrightarrow>
   Data_at (Data_set priv dir v) dir' = Data_at priv dir'"
  using dir_cases [of dir] dir_cases [of dir']
  by (auto simp add: Data_at_def Data_set_def)

text \<open>
  Claim C5.  When a packet is appended to an existing buffer of a direction and the
  length of the pending bytes then exceeds the maximum, \<^verbatim>\<open>Parse\<close> returns with the
  stream of that direction dropped, the other direction as it was and no message handed
  on; the next packet of that direction starts a fresh stream that holds this packet
  alone.
\<close>

theorem oversized_append_discards_direction:
  assumes "unat dir < 2" "Data_at priv dir = Some st"
    "TCP_MAX_DATA_IN_STREAM e < int (length (data st @ pkt_Payload pkt))"
  shows "Parse e mongodb pkt tcpt dir (Some priv) =
      Some (Some (Data_set priv dir None),
            logDebug ''mongodb'' ''Stream data too large, dropping TCP stream''
              (logDebug ''mongodb'' ''Parse method triggered'' mongodb)) \<and>
    Data_at (Data_set priv dir None) dir = None \<and>
    (\<forall>dir'. unat dir' < 2 \<and> dir' \<noteq> dir \<longrightarrow>
       Data_at (Data_set priv dir None) dir' = Data_at priv dir') \<and>
    Parse e mongodb' pkt' tcpt' dir (Some (Data_set priv dir None)) =
      parseLoop e pkt' tcpt' dir (Data_set priv dir None)
        \<lparr>tcptuple = tcpt', data = pkt_Payload pkt', parseOffset = 0, bytesReceived = 0,
         message = Some (newMessage (pkt_Ts pkt'))\<rparr>
        (logDebug ''mongodb'' ''Parse method triggered'' mongodb')"
  using assms by (simp add: Parse_def Let_def Data_at_set_other)

theorem oversized_append_discards_direction_witness:
  "unat (0 :: 8 word) < 2 \<and>
   Data_at \<lparr>Data = (Some example_stream, None)\<rparr> 0 = Some example_stream \<and>
   TCP_MAX_DATA_IN_STREAM example_env
     < int (length (data example_stream @ pkt_Payload example_packet)) \<and>
   Parse example_env example_start example_packet example_tuple 0
       (Some \<lparr>Data = (Some example_stream, None)\<rparr>) =
     Some (Some \<lparr>Data = (None, None)\<rparr>,
           logDebug ''mongodb'' ''Stream data too large, dropping TCP stream''
             (logDebug ''mongodb'' ''Parse method triggered'' example_start))"
proof -
  have a: "unat (0 :: 8 word) < 2" by simp
  have b: "Data_at \<lparr>Data = (Some example_stream, None)\<rparr> 0 = Some example_stream"
    by (simp add: Data_at_def)
  have c: "TCP_MAX_DATA_IN_STREAM example_env
     < int (length (data example_stream @ pkt_Payload example_packet))"
    by (simp add: example_env_def example_stream_def example_packet_def)
  from oversized_append_discards_direction [OF a b c, of example_start example_tuple]
  show ?thesis using a b c by (simp add: Data_set_def)
qed

text \<open>
  Claim C10.  The first packet of a direction creates the stream with the whole payload
  and goes straight into the loop, with no test of its size: when the parser then waits
  for more data, the stream is kept with all its bytes, however many they are.
\<close>

theorem first_packet_stored_unconditionally:
  assumes "unat dir < 2" "Data_at priv dir = None"
  shows "Parse e mongodb pkt tcpt dir (Some priv) =
      parseLoop e pkt tcpt dir priv
        \<lparr>tcptuple = tcpt, data = pkt_Payload pkt, parseOffset = 0, bytesReceived = 0,
         message = Some (newMessage (pkt_Ts pkt))\<rparr>
        (logDebug ''mongodb'' ''Parse method triggered'' mongodb) \<and>
    (pkt_Payload pkt \<noteq> [] \<and>
     mongodbMessageParser e
        \<lparr>tcptuple = tcpt, data = pkt_Payload pkt, parseOffset = 0, bytesReceived = 0,
         message = Some (newMessage (pkt_Ts pkt))\<rparr> = (True, False, st') \<longrightarrow>
     Parse e mongodb pkt tcpt dir (Some priv) =
       Some (Some (Data_set priv dir (Some st')),
             logDebug ''mongodb'' ''MongoDB wait for more data before parsing message''
               (logDebug ''mongodb'' ''Parse method triggered'' mongodb)))"
proof -
  let ?fresh = "\<lparr>tcptuple = tcpt, data = pkt_Payload pkt, parseOffset = 0, bytesReceived = 0,
         message = Some (newMessage (pkt_Ts pkt))\<rparr>"
  have eq: "Parse e mongodb pkt tcpt dir (Some priv) =
      parseLoop e pkt tcpt dir priv ?fresh
        (logDebug ''mongodb'' ''Parse method triggered'' mongodb)"
    using assms by (simp add: Parse_def Let_def)
  have "parseLoop e pkt tcpt dir priv ?fresh
        (logDebug ''mongodb'' ''Parse method triggered'' mongodb) =
       Some (Some (Data_set priv dir (Some st')),
             logDebug ''mongodb'' ''MongoDB wait for more data before parsing message''
               (logDebug ''mongodb'' ''Parse method triggered'' mongodb))"
    if "pkt_Payload pkt \<noteq> []" "mongodbMessageParser e ?fresh = (True, False, st')"
    using that by (subst parseLoop.simps) (simp add: Let_def)
  with eq show ?thesis by simp
qed

theorem first_packet_stored_unconditionally_witness:
  "unat (0 :: 8 word) < 2 \<and> Data_at emptyPrivateData 0 = None \<and>
   TCP_MAX_DATA_IN_STREAM example_env < int (length (pkt_Payload example_packet)) \<and>
   Parse example_env example_start example_packet example_tuple 0 (Some emptyPrivateData) =
     Some (Some \<lparr>Data = (Some example_stream, None)\<rparr>,
           logDebug ''mongodb'' ''MongoDB wait for more data before parsing message''
             (logDebug ''mongodb'' ''Parse method triggered'' example_start))"
proof -
  have a: "unat (0 :: 8 word) < 2" by simp
  have b: "Data_at emptyPrivateData 0 = None"
    by (simp add: Data_at_def emptyPrivateData_def)
  have c: "TCP_MAX_DATA_IN_STREAM example_env < int (length (pkt_Payload example_packet))"
    by (simp add: example_env_def example_packet_def)
  have d: "pkt_Payload example_packet \<noteq> [] \<and>
     mongodbMessageParser example_env
        \<lparr>tcptuple = example_tuple, data = pkt_Payload example_packet, parseOffset = 0,
         bytesReceived = 0, message = Some (newMessage (pkt_Ts example_packet))\<rparr> =
       (True, False, example_stream)"
    by (simp add: example_env_def example_stream_def example_packet_def)
  from first_packet_stored_unconditionally [OF a b, THEN conjunct2, rule_format, OF d,
      of example_start]
  have "Parse example_env example_start example_packet example_tuple 0
          (Some emptyPrivateData) =
     Some (Some (Data_set emptyPrivateData 0 (Some example_stream)),
           logDebug ''mongodb'' ''MongoDB wait for more data before parsing message''
             (logDebug ''mongodb'' ''Parse method triggered'' example_start))" .
  then show ?thesis using a b c
    by (simp add: Data_set_def emptyPrivateData_def)
qed

text \<open>
  Claim C8.  When the parser completes a message that lies within the pending data,
  \<^verbatim>\<open>PrepareForNewMessage\<close> drops exactly the first \<^verbatim>\<open>messageLength\<close> bytes, the
  remaining bytes are kept as they are, the next message in progress is a new message
  with the timestamp of the completed one, and the loop goes on with that stream.
\<close>

theorem completed_message_consumes_its_length:
  assumes "data stream \<noteq> []" "message stream \<noteq> None"
    "mongodbMessageParser e stream = (True, True, stream2)"
    "message stream2 = Some m" "0 \<le> m_messageLength m"
    "m_messageLength m \<le> int (length (data stream2))"
    "handleMongodb e (logDebug ''mongodb'' ''MongoDB message complete'' mongodb) m tcpt dir
       = Inr mongodb'"
  shows "\<exists>stream3. PrepareForNewMessage stream2 = Inr stream3 \<and>
    data stream2 = take (nat (m_messageLength m)) (data stream2) @ data stream3 \<and>
    int (length (data stream3)) = int (length (data stream2)) - m_messageLength m \<and>
    message stream3 = Some (newMessage (m_Ts m)) \<and>
    m_Ts (newMessage (m_Ts m)) = m_Ts m \<and>
    parseLoop e pkt tcpt dir priv stream mongodb =
      parseLoop e pkt tcpt dir priv stream3 mongodb'"
proof -
  let ?s3 = "stream2\<lparr>data := drop (nat (m_messageLength m)) (data stream2),
                     message := Some (newMessage (m_Ts m))\<rparr>"
  have p: "PrepareForNewMessage stream2 = Inr ?s3"
    using assms(4-6) by (simp add: PrepareForNewMessage_def)
  have l: "parseLoop e pkt tcpt dir priv stream mongodb =
      parseLoop e pkt tcpt dir priv ?s3 mongodb'"
    using assms(1,3,4,7) p by (subst parseLoop.simps) (simp add: Let_def assms(2))
  have "int (length (data ?s3)) = int (length (data stream2)) - m_messageLength m"
    using assms(5,6) by simp
  with p l show ?thesis by (simp add: newMessage_def)
qed

lemma example_complete_request:
  "\<exists>s1. handleMongodb example_complete_env
           (logDebug ''mongodb'' ''MongoDB message complete'' example_start)
           ((newMessage 1000000000)\<lparr>m_messageLength := 4\<rparr>) example_tuple 0 = Inr s1"
  using handle_request_eq [of "(newMessage 1000000000)\<lparr>m_messageLength := 4\<rparr>"
      example_complete_env "logDebug ''mongodb'' ''MongoDB message complete'' example_start"
      example_tuple 0]
  by (simp add: newMessage_def)

theorem completed_message_consumes_its_length_witness:
  "data example_stream \<noteq> [] \<and> message example_stream \<noteq> None \<and>
   mongodbMessageParser example_complete_env example_stream =
     (True, True, example_stream\<lparr>message := Some ((newMessage 1000000000)\<lparr>m_messageLength := 4\<rparr>)\<rparr>) \<and>
   (\<exists>stream3 mongodb'.
      PrepareForNewMessage
        (example_stream\<lparr>message := Some ((newMessage 1000000000)\<lparr>m_messageLength := 4\<rparr>)\<rparr>)
        = Inr stream3 \<and>
      data stream3 = [5, 6] \<and>
      message stream3 = Some (newMessage 1000000000) \<and>
      parseLoop example_complete_env example_packet example_tuple 0 emptyPrivateData
          example_stream example_start =
        parseLoop example_complete_env example_packet example_tuple 0 emptyPrivateData
          stream3 mongodb')"
proof -
  let ?m = "(newMessage 1000000000)\<lparr>m_messageLength := 4\<rparr>"
  let ?s2 = "example_stream\<lparr>message := Some ?m\<rparr>"
  have a: "data example_stream \<noteq> []" "message example_stream \<noteq> None"
    by (simp_all add: example_stream_def)
  have b: "mongodbMessageParser example_complete_env example_stream = (True, True, ?s2)"
    by (simp add: example_complete_env_def example_stream_def)
  have c: "message ?s2 = Some ?m" "0 \<le> m_messageLength ?m"
    "m_messageLength ?m \<le> int (length (data ?s2))"
    by (simp_all add: example_stream_def)
  from example_complete_request obtain s1 where
    d: "handleMongodb example_complete_env
           (logDebug ''mongodb'' ''MongoDB message complete'' example_start)
           ?m example_tuple 0 = Inr s1" ..
  from completed_message_consumes_its_length [OF a b c d, of example_packet emptyPrivateData]
  obtain stream3 where e: "PrepareForNewMessage ?s2 = Inr stream3"
    "data ?s2 = take (nat (m_messageLength ?m)) (data ?s2) @ data stream3"
    "message stream3 = Some (newMessage (m_Ts ?m))"
    "parseLoop example_complete_env example_packet example_tuple 0 emptyPrivateData
          example_stream example_start =
        parseLoop example_complete_env example_packet example_tuple 0 emptyPrivateData
          stream3 s1"
    by blast
  from e(2) have "data stream3 = [5, 6]" by (simp add: example_stream_def)
  moreover from e(3) have "message stream3 = Some (newMessage 1000000000)"
    by (simp add: newMessage_def)
  ultimately show ?thesis using a b e(1,4) by blast
qed

lemma supportedOpCode_iff:
  "supportedOpCode c \<longleftrightarrow> c \<in> {1, 1000, 2001, 2002, 2004, 2005, 2006, 2007}"
  by (simp add: supportedOpCode_def OpCodes_def)

text \<open>
  Claim C4.  For a buffer that holds a header whose opcode is not a supported operation
  (absent from the opcode table, as 9999 is, or the reserved opcode 2003), the decoder
  never returns \<open>Complete\<close>, and it returns \<open>Malformed\<close> as soon as the buffer holds
  the declared length.
\<close>

theorem unsupported_opcode_is_malformed:
  assumes "16 \<le> length buf" "\<not> supportedOpCode (readInt32 buf 12)"
  shows "(\<forall>n. fst (decodeMessage body buf m) \<noteq> Complete n) \<and>
    (readInt32 buf 0 \<le> int (length buf) \<longrightarrow> fst (decodeMessage body buf m) = Malformed) \<and>
    \<not> supportedOpCode 2003 \<and> OpCodes 2003 = Some ''RESERVED'' \<and>
    \<not> supportedOpCode 9999 \<and> OpCodes 9999 = None"
proof -
  have "fst (decodeMessage body buf m) = NeedMoreData \<or>
        fst (decodeMessage body buf m) = Malformed"
    using assms
    by (auto simp add: decodeMessage_def Let_def supportedOpCode_def split: option.splits)
  moreover have "fst (decodeMessage body buf m) = Malformed"
    if "readInt32 buf 0 \<le> int (length buf)"
    using assms that
    by (auto simp add: decodeMessage_def Let_def supportedOpCode_def split: option.splits)
  moreover have "\<not> supportedOpCode 2003" "\<not> supportedOpCode 9999"
    by (simp_all add: supportedOpCode_iff)
  moreover have "OpCodes 2003 = Some ''RESERVED''" "OpCodes 9999 = None"
    by (simp_all add: OpCodes_def)
  ultimately show ?thesis by auto
qed

theorem unsupported_opcode_is_malformed_witness:
  "16 \<le> length [16, 0, 0, 0, 1, 0, 0, 0, 0, 0, 0, 0, 0xD3, 0x07, 0, 0 :: byte] \<and>
   readInt32 [16, 0, 0, 0, 1, 0, 0, 0, 0, 0, 0, 0, 0xD3, 0x07, 0, 0] 12 = 2003 \<and>
   \<not> supportedOpCode (readInt32 [16, 0, 0, 0, 1, 0, 0, 0, 0, 0, 0, 0, 0xD3, 0x07, 0, 0] 12) \<and>
   fst (decodeMessage (\<lambda>name buf m. (Complete (length buf), m))
         [16, 0, 0, 0, 1, 0, 0, 0, 0, 0, 0, 0, 0xD3, 0x07, 0, 0]
         (newMessage 0)) = Malformed"
proof -
  let ?buf = "[16, 0, 0, 0, 1, 0, 0, 0, 0, 0, 0, 0, 0xD3, 0x07, 0, 0 :: byte]"
  have a: "16 \<le> length ?buf" by simp
  have b: "readInt32 ?buf 12 = 2003" by (simp add: readInt32_def)
  have c: "\<not> supportedOpCode (readInt32 ?buf 12)" unfolding b by (simp add: supportedOpCode_iff)
  have d: "readInt32 ?buf 0 \<le> int (length ?buf)" by (simp add: readInt32_def)
  from unsupported_opcode_is_malformed [OF a c, THEN conjunct2, THEN conjunct1, rule_format, OF d]
  show ?thesis using a b c by simp
qed

subsection \<open>Packets, capture timestamps and the response time\<close>




text \<open>A packet whose pending stream the parser completes as one message.\<close>

lemma parseLoop_one_message:
  assumes "data stream \<noteq> []" "message stream \<noteq> None"
    "mongodbMessageParser e stream = (True, True, st2)" "message st2 = Some m"
    "m_messageLength m = int (length (data st2))"
    "handleMongodb e (logDebug ''mongodb'' ''MongoDB message complete'' mongodb) m tcpt dir
       = Inr mongodb'"
  shows "parseLoop e pkt tcpt dir priv stream mongodb =
    Some (Some (Data_set priv dir
                  (Some (st2\<lparr>data := [], message := Some (newMessage (m_Ts m))\<rparr>))),
          mongodb')"
proof -
  let ?s3 = "st2\<lparr>data := [], message := Some (newMessage (m_Ts m))\<rparr>"
  have p: "PrepareForNewMessage st2 = Inr ?s3"
    using assms(4,5) by (simp add: PrepareForNewMessage_def)
  have "parseLoop e pkt tcpt dir priv stream mongodb =
      parseLoop e pkt tcpt dir priv ?s3 mongodb'"
    using assms(1,3,4,6) p by (subst parseLoop.simps) (simp add: Let_def assms(2))
  also have "\<dots> = Some (Some (Data_set priv dir (Some ?s3)), mongodb')"
    by (subst parseLoop.simps) simp
  finally show ?thesis .
qed

lemma Parse_pending:
  assumes "unat dir < 2"
    "Data_at priv dir = None \<or>
     int (length (data (pendingStream tcpt pkt (Data_at priv dir)))) \<le> TCP_MAX_DATA_IN_STREAM e"
  shows "Parse e s pkt tcpt dir (Some priv) =
    parseLoop e pkt tcpt dir priv (pendingStream tcpt pkt (Data_at priv dir))
      (logDebug ''mongodb'' ''Parse method triggered'' s)"
  using assms
  by (cases "Data_at priv dir")
     (auto simp add: Parse_def Let_def pendingStream_def newStream_def)

lemma Parse_nil: "Parse e s pkt tcpt dir None = Parse e s pkt tcpt dir (Some emptyPrivateData)"
  by (simp add: Parse_def)


lemma newStream_simps [simp]:
  "data (newStream tcpt pkt) = pkt_Payload pkt"
  "message (newStream tcpt pkt) = Some (newMessage (pkt_Ts pkt))"
  "pendingStream tcpt pkt None = newStream tcpt pkt"
  by (simp_all add: newStream_def pendingStream_def)

text \<open>The example parser, and an exchange of two packets under it.\<close>

lemma wire_env_simps:
  "TCP_MAX_DATA_IN_STREAM example_wire_env = 4"
  "mongodbMessageParser example_wire_env st =
     (True, True,
      st\<lparr>message :=
           map_option
             (\<lambda>m. m\<lparr>m_messageLength := int (length (data st)),
                     m_IsResponse := (hd (data st) = 1),
                     m_method := ''count'',
                     m_event := Some Map.empty\<rparr>)
             (message st)\<rparr>)"
  by (simp_all add: example_wire_env_def example_env_def)


lemma example_packet_simps:
  "pkt_Ts example_request_packet = 1000000000"
  "pkt_Payload example_request_packet = [0, 7]"
  "pkt_Ts example_response_packet = 1005000000"
  "pkt_Payload example_response_packet = [1, 7]"
  "pkt_Ts example_second_request_packet = 2000000000"
  "pkt_Payload example_second_request_packet = [0, 8]"
  "pkt_Ts example_second_response_packet = 2010000000"
  "pkt_Payload example_second_response_packet = [1, 8]"
  "pkt_Ts example_late_response_packet = 1000000000 + 2147483648 * 1000000"
  "pkt_Payload example_late_response_packet = [1, 7]"
  by (simp_all add: example_request_packet_def example_response_packet_def
      example_second_request_packet_def example_second_response_packet_def
      example_late_response_packet_def)

lemma empty_slots [simp]:
  "Data_at emptyPrivateData d = None"
  by (simp add: Data_at_def emptyPrivateData_def)

text \<open>The capture of the example request packet: the state \<^verbatim>\<open>Parse\<close> returns.\<close>

lemma capture_request:
  "reachable example_wire_env (snd (capture example_wire_env example_tuple
      [(example_request_packet, 1)] example_start))"
  "transactionsMap (snd (capture example_wire_env example_tuple
      [(example_request_packet, 1)] example_start)) = [Hashable example_tuple \<mapsto> 0]"
  "timer (objects (snd (capture example_wire_env example_tuple
      [(example_request_packet, 1)] example_start)) 0) = Some 0"
  "status (timers (snd (capture example_wire_env example_tuple
      [(example_request_packet, 1)] example_start)) 0) = Armed"
  "results (snd (capture example_wire_env example_tuple
      [(example_request_packet, 1)] example_start)) = Some []"
proof -
  let ?e = example_wire_env
  let ?m = "(newMessage 1000000000)\<lparr>m_messageLength := 2, m_IsResponse := False,
                m_method := ''count'', m_event := Some Map.empty\<rparr>"
  let ?A = "newStream example_tuple example_request_packet"
  let ?s = "logDebug ''mongodb'' ''MongoDB message complete''
              (logDebug ''mongodb'' ''Parse method triggered'' example_start)"
  let ?s1 = "step ?e ?s (Message ?m example_tuple 1)"
  have nr: "\<not> m_IsResponse ?m" by simp
  have h: "handleMongodb ?e ?s ?m example_tuple 1 = Inr ?s1"
    unfolding step_def event.case handle_request_eq [OF nr] sum.case ..
  have d: "unat (1 :: 8 word) < 2" by simp
  have P: "Parse ?e example_start example_request_packet example_tuple 1
             (Some emptyPrivateData) =
      Some (Some (Data_set emptyPrivateData 1
                    (Some (?A\<lparr>message := Some ?m\<rparr>
                             \<lparr>data := [], message := Some (newMessage (m_Ts ?m))\<rparr>))), ?s1)"
    unfolding Parse_pending [OF d, of emptyPrivateData example_tuple example_request_packet ?e,
        simplified]
    by (rule parseLoop_one_message [OF _ _ _ _ _ h])
       (simp_all add: wire_env_simps example_packet_simps)
  have c: "snd (capture ?e example_tuple [(example_request_packet, 1)] example_start) = ?s1"
    using P by (simp add: capture_def deliver_def Parse_nil)
  have a: "request_addr ?s example_tuple = 0"
    by (simp add: request_addr_def example_start_simps)
  note q = step_request [OF nr, of ?e ?s example_tuple 1]
  show "reachable ?e (snd (capture ?e example_tuple [(example_request_packet, 1)] example_start))"
    unfolding c
    by (rule r_handle [OF _ h]) (intro reachable_logs reachable_example_start)
  show "transactionsMap (snd (capture ?e example_tuple
      [(example_request_packet, 1)] example_start)) = [Hashable example_tuple \<mapsto> 0]"
    "timer (objects (snd (capture ?e example_tuple
      [(example_request_packet, 1)] example_start)) 0) = Some 0"
    "results (snd (capture ?e example_tuple
      [(example_request_packet, 1)] example_start)) = Some []"
    unfolding c q a by (simp_all add: example_start_simps)
  show "status (timers (snd (capture ?e example_tuple
      [(example_request_packet, 1)] example_start)) 0) = Armed"
    unfolding c using q(10) by (simp add: example_start_simps)
qed

theorem timeout_removes_without_publishing_witness:
  "reachable example_wire_env (snd (capture example_wire_env example_tuple
      [(example_request_packet, 1)] example_start)) \<and>
   transactionsMap (snd (capture example_wire_env example_tuple
      [(example_request_packet, 1)] example_start)) (Hashable example_tuple) = Some 0 \<and>
   timer (objects (snd (capture example_wire_env example_tuple
      [(example_request_packet, 1)] example_start)) 0) = Some 0 \<and>
   status (timers (snd (capture example_wire_env example_tuple
      [(example_request_packet, 1)] example_start)) 0) = Armed \<and>
   duration (timers (snd (capture example_wire_env example_tuple
      [(example_request_packet, 1)] example_start)) 0) = 10 * Second \<and>
   transactionsMap
     (timeout (snd (capture example_wire_env example_tuple
        [(example_request_packet, 1)] example_start)) 0)
     (Hashable example_tuple) = None \<and>
   results
     (timeout (snd (capture example_wire_env example_tuple
        [(example_request_packet, 1)] example_start)) 0) = Some []"
  using timeout_removes_without_publishing [OF capture_request(1),
      of example_request example_tuple 1 "Hashable example_tuple" 0 0] capture_request
  by (simp add: example_message_simps)






end
